theory Spec2Isabelle
  imports Complex_Main "HOL-Library.Sublist" "HOL-Library.AList"
begin

section \<open>Strings and Python values\<close>

text \<open>
  Text is modelled as ASCII: a \<^typ>\<open>string\<close> is a list of characters, one per code point
  below 128. \<open>str.lower\<close>, \<open>str.strip\<close> and the regular-expression class \<open>\w\<close> are
  modelled on that range.
\<close>

definition lower_char :: "char \<Rightarrow> char" where
  "lower_char c =
     (let n = (of_char c :: nat) in if 65 \<le> n \<and> n \<le> 90 then char_of (n + 32) else c)"

definition lower :: "string \<Rightarrow> string" where
  "lower s = map lower_char s"

definition is_space :: "char \<Rightarrow> bool" where
  \<comment> \<open>\<open>str.isspace\<close> on ASCII: tab, newline, vertical tab, form feed, carriage return,
      the four separators 28 to 31, and the space.\<close>
  "is_space c = (let n = (of_char c :: nat) in (9 \<le> n \<and> n \<le> 13) \<or> (28 \<le> n \<and> n \<le> 32))"

definition strip :: "string \<Rightarrow> string" where
  "strip s = rev (dropWhile is_space (rev (dropWhile is_space s)))"

definition is_word_char :: "char \<Rightarrow> bool" where
  \<comment> \<open>the class \<open>\w\<close>: letters, digits and the underscore\<close>
  "is_word_char c =
     (let n = (of_char c :: nat) in
        (48 \<le> n \<and> n \<le> 57) \<or> (65 \<le> n \<and> n \<le> 90) \<or> n = 95 \<or> (97 \<le> n \<and> n \<le> 122))"

fun contains :: "string \<Rightarrow> string \<Rightarrow> bool" where
  \<comment> \<open>\<open>sub in text\<close>\<close>
  "contains sub [] = (sub = [])"
| "contains sub (c # cs) = (prefix sub (c # cs) \<or> contains sub cs)"

text \<open>
  The values \<open>getattr\<close> can return for a field of a questionnaire: \<open>None\<close>, a string, a
  float or a boolean. A float is represented by the real number it denotes; the code only
  compares amounts and tests them against zero. The values \<open>nan\<close> and \<open>inf\<close> are not
  represented.
\<close>

datatype pyval = PyNone | PyStr string | PyFloat real | PyBool bool

fun truthy :: "pyval \<Rightarrow> bool" where
  "truthy PyNone = False"
| "truthy (PyStr s) = (s \<noteq> [])"
| "truthy (PyFloat x) = (x \<noteq> 0)"
| "truthy (PyBool b) = b"

fun blank_str :: "pyval \<Rightarrow> bool" where
  \<comment> \<open>\<open>isinstance(value, str) and not value.strip()\<close>\<close>
  "blank_str (PyStr s) = (strip s = [])"
| "blank_str _ = False"

fun num_le :: "pyval \<Rightarrow> real \<Rightarrow> bool" where
  \<comment> \<open>\<open>value <= m\<close> for a number; a boolean compares as 0 or 1\<close>
  "num_le (PyFloat x) m = (x \<le> m)"
| "num_le (PyBool b) m = ((if b then 1 else 0) \<le> m)"
| "num_le _ m = False"

datatype error =
    AttributeError string
  | ReError string
  | KeyError string
  | TypeError
  | UnicodeDecodeError
  | DirectoryNotFound  \<comment> \<open>the \<open>FileNotFoundError\<close> of \<open>open(path, "w")\<close> in a missing directory\<close>

section \<open>The data model (models.py, agent.py)\<close>

record questionnaire =
  questionnaire_id :: string
  investor_name :: string
  investor_address :: "string option"
  investment_amount :: "real option"
  is_accredited_investor :: bool
  accreditation_details :: string
  source_of_funds_description :: string
  tax_id_provided :: bool
  signature_present :: bool
  submission_date :: string
  investor_type :: "string option"

record response =
  resp_questionnaire_id :: string
  decision :: string
  missing_fields :: "string list option"
  escalation_reason :: "string option"

record pattern_entry =
  pattern :: string
  pattern_description :: string

record deps =
  questionnaire :: questionnaire
  response_path :: string
  min_investment_amount :: real
  required_fields :: "string list"
  suspicious_keywords :: "string list"
  suspicious_patterns :: "pattern_entry list"

definition default_required_fields :: "string list" where
  "default_required_fields =
     [''investor_name'', ''investor_address'', ''investment_amount'',
      ''is_accredited_investor'', ''signature_present'', ''tax_id_provided'']"

definition Deps :: "questionnaire \<Rightarrow> string list \<Rightarrow> pattern_entry list \<Rightarrow> deps" where
  \<comment> \<open>the constructor call of \<open>process_questionnaire\<close>: every other field has its default\<close>
  "Deps q kws pats =
     \<lparr>questionnaire = q, response_path = ''data/response.json'', min_investment_amount = 0,
      required_fields = default_required_fields, suspicious_keywords = kws,
      suspicious_patterns = pats\<rparr>"

definition opt_str :: "string option \<Rightarrow> pyval" where
  "opt_str v = (case v of None \<Rightarrow> PyNone | Some s \<Rightarrow> PyStr s)"

definition getattr :: "questionnaire \<Rightarrow> string \<Rightarrow> pyval option" where
  \<comment> \<open>\<open>getattr(q, field_name)\<close> on the declared fields; any other name is an
      \<open>AttributeError\<close>, here \<open>None\<close>\<close>
  "getattr q name =
     (if name = ''questionnaire_id'' then Some (PyStr (questionnaire_id q))
      else if name = ''investor_name'' then Some (PyStr (investor_name q))
      else if name = ''investor_address'' then Some (opt_str (investor_address q))
      else if name = ''investment_amount'' then
        Some (case investment_amount q of None \<Rightarrow> PyNone | Some a \<Rightarrow> PyFloat a)
      else if name = ''is_accredited_investor'' then Some (PyBool (is_accredited_investor q))
      else if name = ''accreditation_details'' then Some (PyStr (accreditation_details q))
      else if name = ''source_of_funds_description'' then
        Some (PyStr (source_of_funds_description q))
      else if name = ''tax_id_provided'' then Some (PyBool (tax_id_provided q))
      else if name = ''signature_present'' then Some (PyBool (signature_present q))
      else if name = ''submission_date'' then Some (PyStr (submission_date q))
      else if name = ''investor_type'' then Some (opt_str (investor_type q))
      else None)"

section \<open>Field Validator: \<open>basic_review\<close>\<close>

definition field_missing :: "real \<Rightarrow> string \<Rightarrow> pyval \<Rightarrow> bool" where
  \<comment> \<open>the body of the loop of \<open>basic_review\<close>: whether \<open>field_name\<close> is appended\<close>
  "field_missing m field_name v =
     (if field_name \<in> set [''tax_id_provided'', ''signature_present''] then \<not> truthy v
      else if v = PyNone \<or> blank_str v then True
      else if field_name = ''investment_amount'' \<and> (\<not> truthy v \<or> num_le v m) then True
      else False)"

fun review_loop :: "questionnaire \<Rightarrow> real \<Rightarrow> string list \<Rightarrow> string list \<Rightarrow> error + string list"
  where
  "review_loop q m [] missing = Inr missing"
| "review_loop q m (field_name # rest) missing =
     (case getattr q field_name of
        None \<Rightarrow> Inl (AttributeError field_name)
      | Some v \<Rightarrow>
          if field_missing m field_name v then review_loop q m rest (missing @ [field_name])
          else review_loop q m rest missing)"

definition basic_review :: "deps \<Rightarrow> error + string list" where
  "basic_review d =
     review_loop (questionnaire d) (min_investment_amount d) (required_fields d) []"

section \<open>Text Screener: \<open>ambiguity_checker\<close>\<close>

text \<open>
  A keyword is searched with \<open>re.search(r'\b' + re.escape(kw) + r'\b', text, re.IGNORECASE)\<close>:
  the keyword is matched literally, letters regardless of case, at a position where \<open>\b\<close>
  holds before and after it. \<open>\b\<close> holds between two positions of which exactly one is a
  word character; the start and the end of the text count as not a word character.
  \<open>search_from prev kw t\<close> scans the rest \<open>t\<close> of the text; \<open>prev\<close> tells whether the
  character before \<open>t\<close> is a word character.
\<close>

definition next_is_word :: "string \<Rightarrow> bool" where
  "next_is_word t = (case t of [] \<Rightarrow> False | c # _ \<Rightarrow> is_word_char c)"

definition last_is_word :: "bool \<Rightarrow> string \<Rightarrow> bool" where
  "last_is_word prev s = (if s = [] then prev else is_word_char (last s))"

definition match_here :: "bool \<Rightarrow> string \<Rightarrow> string \<Rightarrow> bool" where
  "match_here prev kw t =
     (let n = length kw; matched = take n t; rest = drop n t in
        lower matched = lower kw
        \<and> prev \<noteq> next_is_word t
        \<and> last_is_word prev matched \<noteq> next_is_word rest)"

fun search_from :: "bool \<Rightarrow> string \<Rightarrow> string \<Rightarrow> bool" where
  "search_from prev kw [] = match_here prev kw []"
| "search_from prev kw (c # cs) =
     (match_here prev kw (c # cs) \<or> search_from (is_word_char c) kw cs)"

definition word_search :: "string \<Rightarrow> string \<Rightarrow> bool" where
  "word_search kw text = search_from False kw text"

text \<open>
  The patterns of the registry are arbitrary regular expressions. The regular-expression
  engine is a parameter: \<open>re p text\<close> is \<open>re.search(p, text, re.IGNORECASE)\<close>, as
  \<open>Some True\<close> for a match, \<open>Some False\<close> for none, and \<open>None\<close> when \<open>p\<close> does not
  compile (\<open>re.error\<close>).
\<close>

type_synonym regex_engine = "string \<Rightarrow> string \<Rightarrow> bool option"

definition scan_text :: "questionnaire \<Rightarrow> string" where
  "scan_text q = lower (accreditation_details q @ '' '' @ source_of_funds_description q)"

fun keyword_loop :: "string \<Rightarrow> string list \<Rightarrow> bool" where
  "keyword_loop text [] = False"
| "keyword_loop text (kw # kws) = (if word_search kw text then True else keyword_loop text kws)"

fun pattern_loop :: "regex_engine \<Rightarrow> string \<Rightarrow> pattern_entry list \<Rightarrow> error + bool" where
  "pattern_loop re text [] = Inr False"
| "pattern_loop re text (p # ps) =
     (case re (pattern p) text of
        None \<Rightarrow> Inl (ReError (pattern p))
      | Some True \<Rightarrow> Inr True
      | Some False \<Rightarrow> pattern_loop re text ps)"

definition ambiguity_checker :: "regex_engine \<Rightarrow> deps \<Rightarrow> error + string option" where
  "ambiguity_checker re d =
     (let text = scan_text (questionnaire d) in
        if keyword_loop text (suspicious_keywords d) then Inr (Some ''Ambiguous source of funds'')
        else case pattern_loop re text (suspicious_patterns d) of
               Inl e \<Rightarrow> Inl e
             | Inr True \<Rightarrow> Inr (Some ''Ambiguous source of funds'')
             | Inr False \<Rightarrow>
                 if contains ''does not meet'' text then Inr (Some ''Investor is not accredited'')
                 else Inr None)"

section \<open>Decision Engine: \<open>decision_maker\<close> and \<open>process_questionnaire\<close>\<close>

definition amount_rejected :: "deps \<Rightarrow> bool" where
  \<comment> \<open>\<open>not q.investment_amount or q.investment_amount < ctx.deps.min_investment_amount\<close>\<close>
  "amount_rejected d =
     (case investment_amount (questionnaire d) of
        None \<Rightarrow> True
      | Some a \<Rightarrow> a = 0 \<or> a < min_investment_amount d)"

definition decision_maker :: "regex_engine \<Rightarrow> deps \<Rightarrow> error + string" where
  "decision_maker re d =
     (case basic_review d of
        Inl e \<Rightarrow> Inl e
      | Inr missing \<Rightarrow>
          if missing \<noteq> [] then Inr ''Return''
          else if amount_rejected d then Inr ''Return''
          else if \<not> is_accredited_investor (questionnaire d) then Inr ''Escalate''
          else (case ambiguity_checker re d of
                  Inl e \<Rightarrow> Inl e
                | Inr ambiguity \<Rightarrow>
                    if ambiguity \<noteq> None \<and> ambiguity \<noteq> Some [] then Inr ''Escalate''
                    else Inr ''Approve''))"

text \<open>
  The response log is the file at \<open>response_path\<close>: missing, blank, not decodable as JSON,
  a JSON value that is not a list (\<open>responses.append\<close> then raises), or a list of documents.
  Writing the file is taken to succeed.
\<close>

datatype response_log =
    LogMissing
  | LogBlank
  | LogCorrupt
  | LogNotAList
  | LogEntries "response list"

definition load_responses :: "response_log \<Rightarrow> error + response list" where
  "load_responses file =
     (case file of
        LogMissing \<Rightarrow> Inr []
      | LogBlank \<Rightarrow> Inr []
      | LogCorrupt \<Rightarrow> Inr []
      | LogNotAList \<Rightarrow> Inl (AttributeError ''append'')
      | LogEntries rs \<Rightarrow> Inr rs)"

definition response_dict :: "response \<Rightarrow> response" where
  \<comment> \<open>\<open>response.model_dump()\<close> followed by the two adjustments of the output document\<close>
  "response_dict r =
     (let r1 = (if missing_fields r = None \<or> missing_fields r = Some []
                then r\<lparr>missing_fields := None\<rparr> else r)
      in if decision r \<noteq> ''Escalate'' then r1\<lparr>escalation_reason := None\<rparr> else r1)"

definition make_response :: "regex_engine \<Rightarrow> deps \<Rightarrow> error + response" where
  \<comment> \<open>\<open>process_questionnaire\<close> from the tool context to the \<open>Response\<close> object; \<open>deps\<close>
      is what the caller has built. The run of the language model before it is outside the
      model: its result is discarded.\<close>
  "make_response re d =
     (case decision_maker re d of
        Inl e \<Rightarrow> Inl e
      | Inr dec \<Rightarrow>
     (case basic_review d of
        Inl e \<Rightarrow> Inl e
      | Inr missing \<Rightarrow>
     (case (if dec = ''Escalate'' then ambiguity_checker re d else Inr None) of
        Inl e \<Rightarrow> Inl e
      | Inr reason \<Rightarrow>
          Inr \<lparr>resp_questionnaire_id = questionnaire_id (questionnaire d), decision = dec,
               missing_fields = Some missing, escalation_reason = reason\<rparr>)))"

definition process_questionnaire ::
  "regex_engine \<Rightarrow> deps \<Rightarrow> response_log \<Rightarrow> error + (response \<times> response_log)" where
  \<comment> \<open>the response, then the rewritten response log\<close>
  "process_questionnaire re d file =
     (case make_response re d of
        Inl e \<Rightarrow> Inl e
      | Inr resp \<Rightarrow>
          (case load_responses file of
             Inl e \<Rightarrow> Inl e
           | Inr responses \<Rightarrow> Inr (resp, LogEntries (responses @ [response_dict resp]))))"

section \<open>Registry Store: \<open>KeywordManager\<close>\<close>

text \<open>
  The dictionary of categories is an association list in insertion order, as a Python
  dictionary is; \<open>AList.update\<close> replaces the value of a key in place and appends a new
  key. The registry file is absent, holds bytes that are not valid UTF-8, holds text that
  is not decodable as JSON, holds a JSON value that is not an object, or holds a document
  whose two top-level entries may each be there or not. \<open>writes\<close> counts the times the
  file has been written. A \<open>storage\<close> is the state of the file in a directory that exists:
  there a write succeeds. A \<open>disk\<close> is such a storage, or has no directory for the file:
  there the file is absent and \<open>open(path, "w")\<close> raises.
\<close>

record category_entry =
  category :: string
  description :: string
  examples :: "string list"

type_synonym keyword_dict = "(string \<times> category_entry) list"

record registry_doc =
  doc_keywords :: "keyword_dict option"
  doc_patterns :: "pattern_entry list option"

datatype file_content =
    FileNotFound
  | NotUTF8
  | JSONDecodeError
  | NotAnObject
  | Parsed registry_doc

record storage =
  content :: file_content
  writes :: nat

text \<open>The fields \<open>keywords\<close> and \<open>patterns\<close> of the manager object.\<close>

record keyword_manager =
  km_keywords :: keyword_dict
  km_patterns :: "pattern_entry list"

definition save_keywords :: "keyword_manager \<Rightarrow> storage \<Rightarrow> keyword_manager \<times> storage" where
  "save_keywords km st =
     (km, \<lparr>content = Parsed \<lparr>doc_keywords = Some (km_keywords km),
                              doc_patterns = Some (km_patterns km)\<rparr>,
           writes = Suc (writes st)\<rparr>)"





definition get_all_keywords :: "keyword_manager \<Rightarrow> string set" where
  "get_all_keywords km = set (concat (map (\<lambda>(c, e). examples e) (km_keywords km)))"

definition get_all_patterns :: "keyword_manager \<Rightarrow> string list" where
  "get_all_patterns km = map pattern (km_patterns km)"

definition new_category :: "string \<Rightarrow> string option \<Rightarrow> category_entry" where
  "new_category c desc =
     \<lparr>category = ''medium_risk'',
      description = (case desc of
                       None \<Rightarrow> ''Keywords related to '' @ c
                     | Some s \<Rightarrow> if s = [] then ''Keywords related to '' @ c else s),
      examples = []\<rparr>"

definition add_keyword ::
  "string \<Rightarrow> string \<Rightarrow> string option \<Rightarrow> keyword_manager \<Rightarrow> storage \<Rightarrow> keyword_manager \<times> storage"
  where
  "add_keyword c keyword desc km st =
     (let ks = (if map_of (km_keywords km) c = None
                then AList.update c (new_category c desc) (km_keywords km) else km_keywords km);
          km1 = km\<lparr>km_keywords := ks\<rparr>
      in case map_of ks c of
           None \<Rightarrow> (km1, st)
         | Some e \<Rightarrow>
             if keyword \<notin> set (examples e)
             then save_keywords
                    (km1\<lparr>km_keywords := AList.update c (e\<lparr>examples := examples e @ [keyword]\<rparr>) ks\<rparr>) st
             else (km1, st))"

definition add_pattern ::
  "string \<Rightarrow> string \<Rightarrow> keyword_manager \<Rightarrow> storage \<Rightarrow> keyword_manager \<times> storage" where
  "add_pattern p desc km st =
     (if \<not> list_ex (\<lambda>e. pattern e = p) (km_patterns km)
      then save_keywords
             (km\<lparr>km_patterns := km_patterns km @ [\<lparr>pattern = p, pattern_description = desc\<rparr>]\<rparr>) st
      else (km, st))"

definition remove_keyword ::
  "string \<Rightarrow> string \<Rightarrow> keyword_manager \<Rightarrow> storage \<Rightarrow> keyword_manager \<times> storage" where
  "remove_keyword c keyword km st =
     (case map_of (km_keywords km) c of
        None \<Rightarrow> (km, st)
      | Some e \<Rightarrow>
          if keyword \<in> set (examples e)
          then save_keywords
                 (km\<lparr>km_keywords :=
                       AList.update c (e\<lparr>examples := remove1 keyword (examples e)\<rparr>) (km_keywords km)\<rparr>)
                 st
          else (km, st))"

definition remove_pattern :: "string \<Rightarrow> keyword_manager \<Rightarrow> storage \<Rightarrow> keyword_manager \<times> storage"
  where
  "remove_pattern p km st =
     save_keywords (km\<lparr>km_patterns := filter (\<lambda>e. pattern e \<noteq> p) (km_patterns km)\<rparr>) st"

fun split_acc :: "string \<Rightarrow> string \<Rightarrow> string list" where
  "split_acc cur [] = (if cur = [] then [] else [cur])"
| "split_acc cur (c # cs) =
     (if is_space c then (if cur = [] then split_acc [] cs else cur # split_acc [] cs)
      else split_acc (cur @ [c]) cs)"

definition split :: "string \<Rightarrow> string list" where
  \<comment> \<open>\<open>str.split()\<close>: the maximal runs of characters that are not white space\<close>
  "split s = split_acc [] s"

definition update_from_feedback ::
  "string \<Rightarrow> keyword_manager \<Rightarrow> storage \<Rightarrow> keyword_manager \<times> storage" where
  "update_from_feedback feedback_text km st =
     fold (\<lambda>word (km1, st1).
             if length word > 3
             then add_keyword ''feedback'' word
                    (Some (''Added from feedback: '' @ take 50 feedback_text @ ''...'')) km1 st1
             else (km1, st1))
          (split (lower feedback_text)) (km, st)"

section \<open>Feedback Loop (feedback.py)\<close>

text \<open>
  The feedback tools keep the keywords as a flat list and the patterns as a list of
  entries, and rewrite the file with \<open>open(..., "r+")\<close>: a file that is absent or not
  decodable raises. The document they read back keeps its other entry. A tool that raises
  has already appended to the list in memory; the model returns the error alone.
\<close>

record feedback_deps =
  current_keywords :: "string list"
  current_patterns :: "pattern_entry list"

record feedback_doc =
  fb_keywords :: "string list"
  fb_patterns :: "pattern_entry list"

datatype feedback_file = FbNotFound | FbUndecodable | FbParsed feedback_doc

datatype io_error = FileNotFoundError | JSONDecodeFailure

definition rewrite_file ::
  "(feedback_doc \<Rightarrow> feedback_doc) \<Rightarrow> feedback_file \<Rightarrow> io_error + feedback_file" where
  \<comment> \<open>\<open>data = json.load(f); data[...] = ...; json.dump(data, f)\<close>\<close>
  "rewrite_file upd file =
     (case file of
        FbNotFound \<Rightarrow> Inl FileNotFoundError
      | FbUndecodable \<Rightarrow> Inl JSONDecodeFailure
      | FbParsed doc \<Rightarrow> Inr (FbParsed (upd doc)))"

definition load_current_data :: "feedback_deps \<Rightarrow> feedback_file \<Rightarrow> feedback_deps" where
  "load_current_data fd file =
     (case file of
        FbParsed doc \<Rightarrow> fd\<lparr>current_keywords := fb_keywords doc, current_patterns := fb_patterns doc\<rparr>
      | _ \<Rightarrow> fd)"

definition feedback_add_keyword ::
  "string \<Rightarrow> feedback_deps \<Rightarrow> feedback_file \<Rightarrow> io_error + (feedback_deps \<times> feedback_file)" where
  "feedback_add_keyword keyword fd file =
     (if keyword \<notin> set (current_keywords fd) then
        (let fd1 = fd\<lparr>current_keywords := current_keywords fd @ [keyword]\<rparr> in
           case rewrite_file (\<lambda>doc. doc\<lparr>fb_keywords := current_keywords fd1\<rparr>) file of
             Inl e \<Rightarrow> Inl e
           | Inr file1 \<Rightarrow> Inr (fd1, file1))
      else Inr (fd, file))"

definition feedback_add_pattern ::
  "string \<Rightarrow> string \<Rightarrow> feedback_deps \<Rightarrow> feedback_file
     \<Rightarrow> io_error + (feedback_deps \<times> feedback_file)" where
  "feedback_add_pattern p desc fd file =
     (let new_pattern = \<lparr>pattern = p, pattern_description = desc\<rparr> in
        if new_pattern \<notin> set (current_patterns fd) then
          (let fd1 = fd\<lparr>current_patterns := current_patterns fd @ [new_pattern]\<rparr> in
             case rewrite_file (\<lambda>doc. doc\<lparr>fb_patterns := current_patterns fd1\<rparr>) file of
               Inl e \<Rightarrow> Inl e
             | Inr file1 \<Rightarrow> Inr (fd1, file1))
        else Inr (fd, file))"

section \<open>Predicates of the statements\<close>

definition field_deficient :: "deps \<Rightarrow> string \<Rightarrow> bool" where
  \<comment> \<open>the validator's verdict on one field name\<close>
  "field_deficient d f =
     (case getattr (questionnaire d) f of
        None \<Rightarrow> False
      | Some v \<Rightarrow> field_missing (min_investment_amount d) f v)"

definition fields_known :: "deps \<Rightarrow> bool" where
  \<comment> \<open>every configured required field is a field of the questionnaire\<close>
  "fields_known d = list_all (\<lambda>f. getattr (questionnaire d) f \<noteq> None) (required_fields d)"

definition keyword_hit :: "deps \<Rightarrow> bool" where
  "keyword_hit d =
     list_ex (\<lambda>kw. word_search kw (scan_text (questionnaire d))) (suspicious_keywords d)"

definition pattern_hit :: "regex_engine \<Rightarrow> deps \<Rightarrow> bool" where
  "pattern_hit re d =
     list_ex (\<lambda>p. re (pattern p) (scan_text (questionnaire d)) = Some True)
       (suspicious_patterns d)"

definition patterns_compile :: "regex_engine \<Rightarrow> deps \<Rightarrow> bool" where
  "patterns_compile re d =
     list_all (\<lambda>p. re (pattern p) (scan_text (questionnaire d)) \<noteq> None)
       (suspicious_patterns d)"

text \<open>
  The words of the Text Screener, said without the code. Case folding maps each capital
  letter to its small letter by the table of the alphabet and leaves every other character
  as it is. A word character is a letter, a digit or the underscore. There is a word
  boundary between two adjacent parts of a text when exactly one of the two characters at
  the junction is a word character, the start and the end of the text counting as none. A
  keyword occurs as a whole word in a text that splits into a part before, a part equal to
  the keyword up to case, and a part after, with a word boundary on both sides of the
  middle part. The narrative text is the case-folded concatenation of the accreditation
  details, a space, and the description of the source of funds.
\<close>

definition upper_letters :: string where
  "upper_letters = ''ABCDEFGHIJKLMNOPQRSTUVWXYZ''"

definition lower_letters :: string where
  "lower_letters = ''abcdefghijklmnopqrstuvwxyz''"

definition fold_char :: "char \<Rightarrow> char" where
  "fold_char c = (case map_of (zip upper_letters lower_letters) c of None \<Rightarrow> c | Some l \<Rightarrow> l)"

definition case_folded :: "string \<Rightarrow> string" where
  "case_folded s = map fold_char s"

definition word_character :: "char \<Rightarrow> bool" where
  "word_character c = (c \<in> set (lower_letters @ upper_letters @ ''0123456789_''))"

definition ends_in_word :: "string \<Rightarrow> bool" where
  "ends_in_word s = (s \<noteq> [] \<and> word_character (last s))"

definition starts_with_word :: "string \<Rightarrow> bool" where
  "starts_with_word s = (s \<noteq> [] \<and> word_character (hd s))"

definition word_boundary :: "string \<Rightarrow> string \<Rightarrow> bool" where
  "word_boundary left right = (ends_in_word left \<noteq> starts_with_word right)"

definition whole_word_occurrence :: "string \<Rightarrow> string \<Rightarrow> bool" where
  "whole_word_occurrence kw text =
     (\<exists>pre mid post.
        text = pre @ mid @ post \<and> case_folded mid = case_folded kw
        \<and> word_boundary pre (mid @ post) \<and> word_boundary (pre @ mid) post)"

definition narrative_text :: "questionnaire \<Rightarrow> string" where
  "narrative_text q =
     case_folded (accreditation_details q @ '' '' @ source_of_funds_description q)"

section \<open>Example inputs\<close>

definition complete_questionnaire :: questionnaire where
  "complete_questionnaire =
     \<lparr>questionnaire_id = ''Q-001'', investor_name = ''Ada Lovelace'',
      investor_address = Some ''12 Main Street'', investment_amount = Some 250000,
      is_accredited_investor = True,
      accreditation_details = ''Net worth above the threshold'',
      source_of_funds_description = ''Salary and savings'',
      tax_id_provided = True, signature_present = True, submission_date = ''2024-01-15'',
      investor_type = Some ''individual''\<rparr>"

definition failing_engine :: regex_engine where
  \<comment> \<open>an engine on which no pattern compiles\<close>
  "failing_engine p text = None"

definition literal_engine :: regex_engine where
  \<comment> \<open>the search for patterns without metacharacters: a substring, letters regardless
      of case\<close>
  "literal_engine p text = Some (contains (lower p) (lower text))"

definition zero_amount_deps :: deps where
  "zero_amount_deps =
     (Deps (complete_questionnaire\<lparr>investment_amount := Some 0\<rparr>) [] [])
       \<lparr>min_investment_amount := - 100, required_fields := [''investor_name'']\<rparr>"

definition pending_deps :: deps where
  "pending_deps =
     Deps (complete_questionnaire\<lparr>accreditation_details := ''Status PENDING review''\<rparr>)
       [''tbd''] [\<lparr>pattern = ''pending'', pattern_description = ''Pending status''\<rparr>]"

definition clean_deps :: deps where
  "clean_deps =
     Deps (complete_questionnaire\<lparr>source_of_funds_description := ''We were outbid twice''\<rparr>)
       [''tbd'', ''crypto''] [\<lparr>pattern = ''pending'', pattern_description = ''Pending status''\<rparr>]"

definition unaccredited_deps :: deps where
  "unaccredited_deps =
     Deps (complete_questionnaire\<lparr>is_accredited_investor := False,
             source_of_funds_description := ''Crypto gains''\<rparr>) [''crypto''] []"

definition unaccredited_zero_deps :: deps where
  "unaccredited_zero_deps =
     (Deps (complete_questionnaire\<lparr>is_accredited_investor := False,
              investment_amount := Some 0\<rparr>) [] [])
       \<lparr>min_investment_amount := - 100, required_fields := [''investor_name'']\<rparr>"

definition unaccredited_clean_deps :: deps where
  "unaccredited_clean_deps =
     Deps (complete_questionnaire\<lparr>is_accredited_investor := False\<rparr>) [''crypto''] []"

definition boundary_deps :: deps where
  "boundary_deps =
     (Deps (complete_questionnaire\<lparr>investment_amount := Some 1000\<rparr>) [] [])
       \<lparr>min_investment_amount := 1000,
        required_fields := [''investor_name'', ''signature_present'', ''tax_id_provided'']\<rparr>"

definition relocated_deps :: deps where
  "relocated_deps = pending_deps\<lparr>response_path := ''archive/response.json''\<rparr>"

definition registry_unique :: "keyword_manager \<Rightarrow> bool" where
  \<comment> \<open>no two pattern entries with the same expression, no term twice in one category\<close>
  "registry_unique km =
     (distinct (map pattern (km_patterns km))
      \<and> list_all (\<lambda>(c, e). distinct (examples e)) (km_keywords km))"

definition feedback_unique :: "feedback_deps \<Rightarrow> bool" where
  "feedback_unique fd =
     (distinct (map pattern (current_patterns fd)) \<and> distinct (current_keywords fd))"

datatype registry_op =
    AddKeyword string string "string option"
  | RemoveKeyword string string
  | AddPattern string string
  | RemovePattern string
  | UpdateFromFeedback string

fun apply_op :: "registry_op \<Rightarrow> keyword_manager \<times> storage \<Rightarrow> keyword_manager \<times> storage" where
  "apply_op (AddKeyword c k desc) (km, st) = add_keyword c k desc km st"
| "apply_op (RemoveKeyword c k) (km, st) = remove_keyword c k km st"
| "apply_op (AddPattern p desc) (km, st) = add_pattern p desc km st"
| "apply_op (RemovePattern p) (km, st) = remove_pattern p km st"
| "apply_op (UpdateFromFeedback text) (km, st) = update_from_feedback text km st"

definition add_then_remove ::
  "string \<Rightarrow> string \<Rightarrow> string option \<Rightarrow> keyword_manager \<Rightarrow> storage \<Rightarrow> keyword_manager \<times> storage"
  where
  "add_then_remove c k desc km st =
     (case add_keyword c k desc km st of (km1, st1) \<Rightarrow> remove_keyword c k km1 st1)"

definition saved :: "keyword_manager \<Rightarrow> storage \<Rightarrow> bool" where
  \<comment> \<open>the file holds the registry of the manager\<close>
  "saved km st =
     (content st = Parsed \<lparr>doc_keywords = Some (km_keywords km),
                           doc_patterns = Some (km_patterns km)\<rparr>)"

definition pending_entry :: pattern_entry where
  "pending_entry = \<lparr>pattern = ''pending'', pattern_description = ''Pending status''\<rparr>"

definition feedback_state :: feedback_deps where
  "feedback_state = \<lparr>current_keywords = [''offshore''], current_patterns = [pending_entry]\<rparr>"

definition feedback_stored :: feedback_file where
  "feedback_stored = FbParsed \<lparr>fb_keywords = [''offshore''], fb_patterns = [pending_entry]\<rparr>"


definition crypto_manager :: keyword_manager where
  "crypto_manager =
     \<lparr>km_keywords = [(''crypto'', \<lparr>category = ''high_risk'', description = ''Digital assets'',
                                  examples = [''bitcoin'']\<rparr>)],
      km_patterns = [pending_entry]\<rparr>"

definition empty_storage :: storage where
  "empty_storage =
     \<lparr>content = Parsed \<lparr>doc_keywords = Some [], doc_patterns = Some []\<rparr>, writes = 0\<rparr>"

definition unaccredited_pending_deps :: deps where
  "unaccredited_pending_deps =
     Deps (complete_questionnaire\<lparr>is_accredited_investor := False,
             accreditation_details := ''Status PENDING review''\<rparr>)
       [''crypto''] [\<lparr>pattern = ''pending'', pattern_description = ''Pending status''\<rparr>]"

definition unaccredited_unmet_deps :: deps where
  "unaccredited_unmet_deps =
     Deps (complete_questionnaire\<lparr>is_accredited_investor := False,
             accreditation_details := ''Does NOT meet the income test''\<rparr>)
       [''crypto''] [\<lparr>pattern = ''pending'', pattern_description = ''Pending status''\<rparr>]"

definition whitespace_chars :: string where
  \<comment> \<open>tab, line feed, vertical tab, form feed, carriage return, the separators 28 to 31,
      space\<close>
  "whitespace_chars =
     [CHR 0x09, CHR 0x0A, CHR 0x0B, CHR 0x0C, CHR 0x0D, CHR 0x1C, CHR 0x1D, CHR 0x1E, CHR 0x1F,
      CHR 0x20]"

definition whitespace_only :: "string \<Rightarrow> bool" where
  "whitespace_only s = list_all (\<lambda>c. c \<in> set whitespace_chars) s"

definition spec_deficient :: "deps \<Rightarrow> string \<Rightarrow> bool" where
  "spec_deficient d f =
     (let q = questionnaire d in
        if f = ''signature_present'' then \<not> signature_present q
        else if f = ''tax_id_provided'' then \<not> tax_id_provided q
        else if f = ''investment_amount'' then
          (case investment_amount q of
             None \<Rightarrow> True
           | Some a \<Rightarrow> \<not> min_investment_amount d < a)
        else if f = ''questionnaire_id'' then whitespace_only (questionnaire_id q)
        else if f = ''investor_name'' then whitespace_only (investor_name q)
        else if f = ''investor_address'' then
          (case investor_address q of None \<Rightarrow> True | Some s \<Rightarrow> whitespace_only s)
        else if f = ''accreditation_details'' then whitespace_only (accreditation_details q)
        else if f = ''source_of_funds_description'' then
          whitespace_only (source_of_funds_description q)
        else if f = ''submission_date'' then whitespace_only (submission_date q)
        else if f = ''investor_type'' then
          (case investor_type q of None \<Rightarrow> True | Some s \<Rightarrow> whitespace_only s)
        else False)"

definition deficient_or_zero :: "deps \<Rightarrow> string \<Rightarrow> bool" where
  "deficient_or_zero d f =
     (spec_deficient d f
      \<or> (f = ''investment_amount'' \<and> investment_amount (questionnaire d) = Some 0))"

definition deficient_deps :: deps where
  "deficient_deps =
     (Deps (complete_questionnaire\<lparr>investor_name := [CHR 0x20, CHR 0x09],
              investor_address := None, investment_amount := Some 100,
              signature_present := False\<rparr>) [''salary''] [])
       \<lparr>min_investment_amount := 100\<rparr>"

definition unsigned_zero_deps :: deps where
  "unsigned_zero_deps =
     (Deps (complete_questionnaire\<lparr>investment_amount := Some 0,
              signature_present := False\<rparr>) [] [])
       \<lparr>min_investment_amount := - 100\<rparr>"

definition keyword_deps :: deps where
  "keyword_deps =
     Deps (complete_questionnaire\<lparr>source_of_funds_description := ''Funds are TBD.''\<rparr>)
       [''crypto'', ''Tbd''] [\<lparr>pattern = ''pending'', pattern_description = ''Pending status''\<rparr>]"

lemmas eval_simps = Deps_def default_required_fields_def complete_questionnaire_def
  fields_known_def field_deficient_def getattr_def field_missing_def opt_str_def strip_def
  is_space_def

section \<open>The Field Validator as a filter\<close>

lemma review_loop_known:
  "list_all (\<lambda>f. getattr q f \<noteq> None) fs \<Longrightarrow>
   review_loop q m fs acc =
     Inr (acc @ filter (\<lambda>f. case getattr q f of None \<Rightarrow> False | Some v \<Rightarrow> field_missing m f v) fs)"
  by (induction fs arbitrary: acc) auto

lemma basic_review_known:
  "fields_known d \<Longrightarrow> basic_review d = Inr (filter (field_deficient d) (required_fields d))"
  unfolding basic_review_def fields_known_def
  by (simp add: review_loop_known field_deficient_def[abs_def])

lemma review_loop_Inr_known:
  "review_loop q m fs acc = Inr ms \<Longrightarrow> list_all (\<lambda>f. getattr q f \<noteq> None) fs"
  by (induction fs arbitrary: acc) (auto split: option.splits if_splits)

lemma basic_review_Inr_iff: "(\<exists>ms. basic_review d = Inr ms) \<longleftrightarrow> fields_known d"
  using basic_review_known review_loop_Inr_known
  unfolding basic_review_def fields_known_def by blast

lemma basic_review_registry [simp]:
  "basic_review (d\<lparr>suspicious_keywords := kws, suspicious_patterns := pats\<rparr>) = basic_review d"
  by (simp add: basic_review_def)

lemma field_deficient_amount:
  "investment_amount (questionnaire d) = Some a \<Longrightarrow>
   field_deficient d ''investment_amount'' \<longleftrightarrow> a = 0 \<or> a \<le> min_investment_amount d"
  by (simp add: field_deficient_def getattr_def field_missing_def)

lemma field_deficient_amount_None:
  "investment_amount (questionnaire d) = None \<Longrightarrow> field_deficient d ''investment_amount''"
  by (simp add: field_deficient_def getattr_def field_missing_def)

section \<open>Structural decisions\<close>

lemma decision_maker_missing:
  "basic_review d = Inr ms \<Longrightarrow> ms \<noteq> [] \<Longrightarrow> decision_maker re d = Inr ''Return''"
  by (simp add: decision_maker_def)

lemma decision_maker_amount:
  "basic_review d = Inr ms \<Longrightarrow> amount_rejected d \<Longrightarrow> decision_maker re d = Inr ''Return''"
  by (simp add: decision_maker_def)

lemma make_response_return:
  "basic_review d = Inr ms \<Longrightarrow> decision_maker re d = Inr ''Return'' \<Longrightarrow>
   make_response re d =
     Inr \<lparr>resp_questionnaire_id = questionnaire_id (questionnaire d), decision = ''Return'',
          missing_fields = Some ms, escalation_reason = None\<rparr>"
  by (simp add: make_response_def)

lemma whitespace_is_space: "\<forall>c \<in> set whitespace_chars. is_space c"
  by code_simp

lemma space_codes: "\<forall>n \<in> set [9, 10, 11, 12, 13, 28, 29, 30, 31, 32 :: nat]. char_of n \<in> set whitespace_chars"
  by code_simp

lemma is_space_iff: "is_space c \<longleftrightarrow> c \<in> set whitespace_chars"
proof
  assume "is_space c"
  then have "(of_char c :: nat) \<in> set [9, 10, 11, 12, 13, 28, 29, 30, 31, 32]"
    unfolding is_space_def Let_def by simp arith
  with space_codes have "char_of (of_char c :: nat) \<in> set whitespace_chars"
    by blast
  then show "c \<in> set whitespace_chars" by simp
next
  assume "c \<in> set whitespace_chars"
  with whitespace_is_space show "is_space c" by blast
qed

lemma strip_empty_iff: "strip s = [] \<longleftrightarrow> whitespace_only s"
proof -
  have "dropWhile is_space (rev (dropWhile is_space s)) = []
          \<longleftrightarrow> dropWhile is_space s = []"
  proof
    assume a: "dropWhile is_space (rev (dropWhile is_space s)) = []"
    show "dropWhile is_space s = []"
    proof (rule ccontr)
      assume n: "dropWhile is_space s \<noteq> []"
      then have "\<not> is_space (hd (dropWhile is_space s))"
        by (rule hd_dropWhile)
      moreover have "hd (dropWhile is_space s) \<in> set (rev (dropWhile is_space s))"
        using n by simp
      ultimately show False
        using a by (simp add: dropWhile_eq_Nil_conv)
    qed
  qed (auto dest: set_dropWhileD)
  then show ?thesis
    by (simp add: strip_def whitespace_only_def dropWhile_eq_Nil_conv list_all_iff is_space_iff)
qed

lemmas deficient_defs = field_deficient_def getattr_def field_missing_def deficient_or_zero_def
  spec_deficient_def opt_str_def strip_empty_iff Let_def

lemma field_deficient_eq: "field_deficient d f = deficient_or_zero d f"
proof -
  let ?P = "field_deficient d f = deficient_or_zero d f"
  have sig: ?P if "f = ''signature_present''"
    using that by (simp add: deficient_defs)
  have tax: ?P if "f = ''tax_id_provided''"
    using that by (simp add: deficient_defs)
  have amount: ?P if "f = ''investment_amount''"
  proof (cases "investment_amount (questionnaire d)")
    case None
    with that show ?thesis by (simp add: deficient_defs)
  next
    case (Some a)
    with that show ?thesis by (simp add: deficient_defs)
  qed
  have id: ?P if "f = ''questionnaire_id''"
    using that by (simp add: deficient_defs)
  have name: ?P if "f = ''investor_name''"
    using that by (simp add: deficient_defs)
  have address: ?P if "f = ''investor_address''"
    using that by (simp add: deficient_defs split: option.splits)
  have details: ?P if "f = ''accreditation_details''"
    using that by (simp add: deficient_defs)
  have funds: ?P if "f = ''source_of_funds_description''"
    using that by (simp add: deficient_defs)
  have date: ?P if "f = ''submission_date''"
    using that by (simp add: deficient_defs)
  have type: ?P if "f = ''investor_type''"
    using that by (simp add: deficient_defs split: option.splits)
  have flag: ?P if "f = ''is_accredited_investor''"
    using that by (simp add: deficient_defs)
  have other: ?P
    if "f \<noteq> ''signature_present''" "f \<noteq> ''tax_id_provided''" "f \<noteq> ''investment_amount''"
      "f \<noteq> ''questionnaire_id''" "f \<noteq> ''investor_name''" "f \<noteq> ''investor_address''"
      "f \<noteq> ''accreditation_details''" "f \<noteq> ''source_of_funds_description''"
      "f \<noteq> ''submission_date''" "f \<noteq> ''investor_type''" "f \<noteq> ''is_accredited_investor''"
    using that by (simp add: deficient_defs)
  show ?thesis
    using sig tax amount id name address details funds date type flag other by argo
qed


lemma deficient_or_zero_nonnegative:
  "0 \<le> min_investment_amount d \<Longrightarrow> deficient_or_zero d f = spec_deficient d f"
  by (cases "f = ''investment_amount''")
    (simp_all add: deficient_or_zero_def spec_deficient_def Let_def split: option.splits)

text \<open>
  C1, as the code has it. The Field Validator reports a required field when: it is one of
  the flags \<open>signature_present\<close> and \<open>tax_id_provided\<close> and is false; it is a text that is
  null or consists of white space only; it is the investment amount and is null, not
  strictly greater than the minimum, or exactly zero. A questionnaire with at least one
  such required field is classified Return. The missing-field list is not empty and is
  the list of the configured required fields, in their order, restricted to the deficient
  ones. The response is the same whatever the registry and the regular-expression engine
  are, also an engine on which every pattern fails: the Text Screener has no part in it,
  and the escalation reason is empty. With a minimum that is not negative the zero rule
  adds nothing to the rule on the minimum.
\<close>

theorem incomplete_is_returned:
  assumes "fields_known d"
    and "list_ex (deficient_or_zero d) (required_fields d)"
  shows "basic_review d = Inr (filter (deficient_or_zero d) (required_fields d))
       \<and> filter (deficient_or_zero d) (required_fields d) \<noteq> []
       \<and> decision_maker re d = Inr ''Return''
       \<and> (\<forall>re' kws pats.
            make_response re' (d\<lparr>suspicious_keywords := kws, suspicious_patterns := pats\<rparr>) =
              Inr \<lparr>resp_questionnaire_id = questionnaire_id (questionnaire d),
                   decision = ''Return'',
                   missing_fields = Some (filter (deficient_or_zero d) (required_fields d)),
                   escalation_reason = None\<rparr>)
       \<and> (0 \<le> min_investment_amount d \<longrightarrow>
            basic_review d = Inr (filter (spec_deficient d) (required_fields d)))"
proof -
  let ?ms = "filter (deficient_or_zero d) (required_fields d)"
  have eq: "field_deficient d = deficient_or_zero d"
    by (rule ext) (rule field_deficient_eq)
  have br: "basic_review d = Inr ?ms"
    using basic_review_known [OF assms(1)] by (simp only: eq)
  have ne: "?ms \<noteq> []"
    using assms(2) by (simp add: list_ex_iff filter_empty_conv)
  have dm: "decision_maker re d = Inr ''Return''"
    using br ne by (rule decision_maker_missing)
  have mr: "make_response re' (d\<lparr>suspicious_keywords := kws, suspicious_patterns := pats\<rparr>) =
              Inr \<lparr>resp_questionnaire_id = questionnaire_id (questionnaire d),
                   decision = ''Return'', missing_fields = Some ?ms, escalation_reason = None\<rparr>"
    for re' kws pats
  proof -
    let ?d = "d\<lparr>suspicious_keywords := kws, suspicious_patterns := pats\<rparr>"
    have b: "basic_review ?d = Inr ?ms"
      using br by simp
    then have "decision_maker re' ?d = Inr ''Return''"
      using ne by (rule decision_maker_missing)
    with b have "make_response re' ?d =
        Inr \<lparr>resp_questionnaire_id = questionnaire_id (questionnaire ?d), decision = ''Return'',
             missing_fields = Some ?ms, escalation_reason = None\<rparr>"
      by (rule make_response_return)
    then show ?thesis by simp
  qed
  have sp: "basic_review d = Inr (filter (spec_deficient d) (required_fields d))"
    if "0 \<le> min_investment_amount d"
  proof -
    have "deficient_or_zero d = spec_deficient d"
      by (rule ext) (rule deficient_or_zero_nonnegative [OF that])
    with br show ?thesis by simp
  qed
  from br ne dm mr sp show ?thesis by blast
qed

theorem incomplete_is_returned_witness:
  "fields_known deficient_deps
   \<and> list_ex (deficient_or_zero deficient_deps) (required_fields deficient_deps)
   \<and> basic_review deficient_deps =
       Inr [''investor_name'', ''investor_address'', ''investment_amount'',
            ''signature_present'']
   \<and> decision_maker failing_engine deficient_deps = Inr ''Return''
   \<and> make_response failing_engine deficient_deps =
        Inr \<lparr>resp_questionnaire_id = ''Q-001'', decision = ''Return'',
             missing_fields =
               Some [''investor_name'', ''investor_address'', ''investment_amount'',
                     ''signature_present''],
             escalation_reason = None\<rparr>"
proof -
  have k: "fields_known deficient_deps"
    by code_simp
  have f: "filter (deficient_or_zero deficient_deps) (required_fields deficient_deps)
           = [''investor_name'', ''investor_address'', ''investment_amount'',
              ''signature_present'']"
    by code_simp
  have e: "list_ex (deficient_or_zero deficient_deps) (required_fields deficient_deps)"
    by code_simp
  have u: "deficient_deps\<lparr>suspicious_keywords := suspicious_keywords deficient_deps,
             suspicious_patterns := suspicious_patterns deficient_deps\<rparr> = deficient_deps"
    by simp
  have q: "questionnaire_id (questionnaire deficient_deps) = ''Q-001''"
    by (simp add: deficient_deps_def eval_simps)
  note t = incomplete_is_returned [OF k e, of failing_engine, unfolded f q]
  have b: "basic_review deficient_deps =
       Inr [''investor_name'', ''investor_address'', ''investment_amount'',
            ''signature_present'']"
    using t by (rule conjunct1)
  have d: "decision_maker failing_engine deficient_deps = Inr ''Return''"
    using t [THEN conjunct2, THEN conjunct2] by (rule conjunct1)
  from t [THEN conjunct2, THEN conjunct2, THEN conjunct2, THEN conjunct1]
  have "make_response failing_engine
          (deficient_deps\<lparr>suspicious_keywords := suspicious_keywords deficient_deps,
             suspicious_patterns := suspicious_patterns deficient_deps\<rparr>) =
        Inr \<lparr>resp_questionnaire_id = ''Q-001'', decision = ''Return'',
             missing_fields =
               Some [''investor_name'', ''investor_address'', ''investment_amount'',
                     ''signature_present''],
             escalation_reason = None\<rparr>"
    by blast
  then have m: "make_response failing_engine deficient_deps =
        Inr \<lparr>resp_questionnaire_id = ''Q-001'', decision = ''Return'',
             missing_fields =
               Some [''investor_name'', ''investor_address'', ''investment_amount'',
                     ''signature_present''],
             escalation_reason = None\<rparr>"
    by (simp only: u)
  from k e b d m show ?thesis by blast
qed

text \<open>
  C1 as stated fails. With a minimum of \<open>-100\<close>, a questionnaire without signature and with
  amount 0 has one deficient required field by the rules of the validator as the
  specification gives them, the signature, since 0 is strictly greater than the minimum;
  the validator reports the amount too.
\<close>

theorem deficient_fields_counterexample:
  "fields_known unsigned_zero_deps
   \<and> filter (spec_deficient unsigned_zero_deps) (required_fields unsigned_zero_deps)
       = [''signature_present'']
   \<and> basic_review unsigned_zero_deps = Inr [''investment_amount'', ''signature_present'']"
proof -
  have a: "fields_known unsigned_zero_deps"
    by code_simp
  have b: "filter (spec_deficient unsigned_zero_deps) (required_fields unsigned_zero_deps)
       = [''signature_present'']"
    by code_simp
  have c: "basic_review unsigned_zero_deps = Inr [''investment_amount'', ''signature_present'']"
    by code_simp
  from a b c show ?thesis by blast
qed

text \<open>
  C10. Whatever the configured minimum is, zero or negative included, a questionnaire
  whose investment amount is exactly 0 is classified Return, as one without an amount is:
  the validator reports the amount when it is a required field, and the engine tests the
  amount for zero before it compares it with the minimum.
\<close>

theorem zero_amount_is_returned:
  assumes "investment_amount (questionnaire d) = Some 0"
    and "fields_known d"
  shows "decision_maker re d = Inr ''Return''
       \<and> make_response re d =
           Inr \<lparr>resp_questionnaire_id = questionnaire_id (questionnaire d),
                decision = ''Return'',
                missing_fields = Some (filter (field_deficient d) (required_fields d)),
                escalation_reason = None\<rparr>"
proof -
  have br: "basic_review d = Inr (filter (field_deficient d) (required_fields d))"
    using assms(2) by (rule basic_review_known)
  have "amount_rejected d"
    using assms(1) by (simp add: amount_rejected_def)
  with br have dm: "decision_maker re d = Inr ''Return''"
    by (rule decision_maker_amount)
  from make_response_return [OF br dm] dm show ?thesis by simp
qed

theorem zero_amount_is_returned_witness:
  "investment_amount (questionnaire zero_amount_deps) = Some 0
   \<and> fields_known zero_amount_deps
   \<and> min_investment_amount zero_amount_deps < 0
   \<and> decision_maker literal_engine zero_amount_deps = Inr ''Return''
   \<and> make_response literal_engine zero_amount_deps =
        Inr \<lparr>resp_questionnaire_id = ''Q-001'', decision = ''Return'',
             missing_fields = Some [], escalation_reason = None\<rparr>"
proof -
  have a: "investment_amount (questionnaire zero_amount_deps) = Some 0"
    by (simp add: zero_amount_deps_def eval_simps)
  have k: "fields_known zero_amount_deps"
    by (simp add: zero_amount_deps_def eval_simps)
  have m: "min_investment_amount zero_amount_deps < 0"
    by (simp add: zero_amount_deps_def eval_simps)
  have f: "filter (field_deficient zero_amount_deps) (required_fields zero_amount_deps) = []"
    by (simp add: zero_amount_deps_def eval_simps)
  have q: "questionnaire_id (questionnaire zero_amount_deps) = ''Q-001''"
    by (simp add: zero_amount_deps_def eval_simps)
  from zero_amount_is_returned [OF a k, of literal_engine] a k m f q show ?thesis
    by simp
qed

section \<open>Text screening\<close>

lemma upper_codes: "\<forall>n \<in> set [65..<91]. char_of (n::nat) \<in> set upper_letters"
  by code_simp

lemma fold_upper: "\<forall>c \<in> set upper_letters. lower_char c = fold_char c"
  by code_simp

lemma lower_char_fold: "lower_char c = fold_char c"
proof (cases "c \<in> set upper_letters")
  case True
  with fold_upper show ?thesis by blast
next
  case False
  have "length upper_letters = length lower_letters"
    by (simp add: upper_letters_def lower_letters_def)
  with False have "map_of (zip upper_letters lower_letters) c = None"
    by simp
  then have f: "fold_char c = c"
    by (simp add: fold_char_def)
  have "\<not> (65 \<le> (of_char c :: nat) \<and> (of_char c :: nat) \<le> 90)"
  proof
    assume "65 \<le> (of_char c :: nat) \<and> (of_char c :: nat) \<le> 90"
    then have "(of_char c :: nat) \<in> {65..<91}" by simp
    then have "(of_char c :: nat) \<in> set [65..<91]" by (simp only: set_upt)
    with upper_codes have "char_of (of_char c :: nat) \<in> set upper_letters" by blast
    with False show False by simp
  qed
  then have "lower_char c = c"
    by (auto simp: lower_char_def Let_def)
  with f show ?thesis by simp
qed

lemma lower_case_folded: "lower s = case_folded s"
  by (simp add: lower_def case_folded_def lower_char_fold)

lemma scan_text_narrative: "scan_text q = narrative_text q"
  by (simp add: scan_text_def narrative_text_def lower_case_folded)

lemma word_codes:
  "\<forall>n \<in> set ([48..<58] @ [65..<91] @ [95] @ [97..<123]).
     char_of (n::nat) \<in> set (lower_letters @ upper_letters @ ''0123456789_'')"
  by code_simp

lemma word_chars: "\<forall>c \<in> set (lower_letters @ upper_letters @ ''0123456789_''). is_word_char c"
  by code_simp

lemma is_word_char_iff: "is_word_char c \<longleftrightarrow> word_character c"
proof
  assume "is_word_char c"
  then have "(of_char c :: nat) \<in> set ([48..<58] @ [65..<91] @ [95] @ [97..<123])"
    unfolding is_word_char_def Let_def by simp arith
  with word_codes
  have "char_of (of_char c :: nat) \<in> set (lower_letters @ upper_letters @ ''0123456789_'')"
    by blast
  then show "word_character c"
    by (simp only: word_character_def char_of_char)
next
  assume "word_character c"
  with word_chars show "is_word_char c"
    unfolding word_character_def by blast
qed

lemma contains_sublist: "contains sub t \<longleftrightarrow> sublist sub t"
  by (induction t) (simp_all add: sublist_Cons_right)


lemma match_here_iff:
  "match_here prev kw t \<longleftrightarrow>
     (\<exists>mid post. t = mid @ post \<and> lower mid = lower kw
        \<and> prev \<noteq> next_is_word t \<and> last_is_word prev mid \<noteq> next_is_word post)"
proof
  assume m: "match_here prev kw t"
  show "\<exists>mid post. t = mid @ post \<and> lower mid = lower kw
        \<and> prev \<noteq> next_is_word t \<and> last_is_word prev mid \<noteq> next_is_word post"
    using m unfolding match_here_def Let_def
    by (intro exI [of _ "take (length kw) t"] exI [of _ "drop (length kw) t"]) auto
next
  assume "\<exists>mid post. t = mid @ post \<and> lower mid = lower kw
        \<and> prev \<noteq> next_is_word t \<and> last_is_word prev mid \<noteq> next_is_word post"
  then obtain mid post where h: "t = mid @ post" "lower mid = lower kw"
    "prev \<noteq> next_is_word t" "last_is_word prev mid \<noteq> next_is_word post"
    by blast
  from h(2) have "length mid = length kw"
    unfolding lower_def by (rule map_eq_imp_length_eq)
  with h show "match_here prev kw t"
    unfolding match_here_def Let_def by auto
qed

lemma last_is_word_Cons:
  "last_is_word prev (c # pre) = last_is_word (is_word_char c) pre"
  by (simp add: last_is_word_def)

lemma last_is_word_Nil: "last_is_word prev [] = prev"
  by (simp add: last_is_word_def)


lemma search_from_iff:
  "search_from prev kw t \<longleftrightarrow>
     (\<exists>pre mid post.
        t = pre @ mid @ post \<and> lower mid = lower kw
        \<and> last_is_word prev pre \<noteq> next_is_word (mid @ post)
        \<and> last_is_word (last_is_word prev pre) mid \<noteq> next_is_word post)"
proof (induction t arbitrary: prev)
  case Nil
  show ?case
    by (simp add: match_here_iff last_is_word_Nil)
next
  case (Cons c cs)
  have here: "match_here prev kw (c # cs) \<longleftrightarrow>
     (\<exists>mid post. c # cs = [] @ mid @ post \<and> lower mid = lower kw
        \<and> last_is_word prev [] \<noteq> next_is_word (mid @ post)
        \<and> last_is_word (last_is_word prev []) mid \<noteq> next_is_word post)"
    unfolding match_here_iff last_is_word_Nil by (metis append_Nil)
  have later: "search_from (is_word_char c) kw cs \<longleftrightarrow>
     (\<exists>pre mid post. c # cs = (c # pre) @ mid @ post \<and> lower mid = lower kw
        \<and> last_is_word prev (c # pre) \<noteq> next_is_word (mid @ post)
        \<and> last_is_word (last_is_word prev (c # pre)) mid \<noteq> next_is_word post)"
    unfolding Cons.IH last_is_word_Cons by simp
  have split: "(\<exists>pre. Q pre) \<longleftrightarrow> Q [] \<or> (\<exists>x xs. Q (x # xs))" for Q :: "string \<Rightarrow> bool"
    by (metis list.exhaust)
  show ?case
    unfolding search_from.simps here later
    by (subst (3) split) auto
qed

lemma next_is_word_starts: "next_is_word t = starts_with_word t"
  by (cases t) (simp_all add: next_is_word_def starts_with_word_def is_word_char_iff)

lemma last_is_word_ends: "last_is_word False s = ends_in_word s"
  by (simp add: last_is_word_def ends_in_word_def is_word_char_iff)

lemma last_is_word_append: "last_is_word (ends_in_word pre) mid = ends_in_word (pre @ mid)"
  by (cases "mid = []") (simp_all add: last_is_word_def ends_in_word_def is_word_char_iff)

lemma word_search_iff: "word_search kw text \<longleftrightarrow> whole_word_occurrence kw text"
  by (simp only: word_search_def whole_word_occurrence_def search_from_iff word_boundary_def
      next_is_word_starts last_is_word_ends last_is_word_append lower_case_folded)

lemma of_char_lower_char:
  "(of_char (lower_char c) :: nat) =
     (if 65 \<le> (of_char c :: nat) \<and> (of_char c :: nat) \<le> 90 then of_char c + 32 else of_char c)"
  by (simp add: lower_char_def Let_def)

lemma is_word_lower: "is_word_char (lower_char c) = is_word_char c"
  unfolding is_word_char_def Let_def of_char_lower_char by (cases "65 \<le> (of_char c :: nat) \<and> (of_char c :: nat) \<le> 90") simp_all


lemma lower_eq_ends:
  assumes "lower mid = lower kw" and "kw \<noteq> []"
  shows "mid \<noteq> []"
    and "is_word_char (hd mid) = is_word_char (hd kw)"
    and "is_word_char (last mid) = is_word_char (last kw)"
proof -
  from assms(1) have len: "length mid = length kw"
    unfolding lower_def by (rule map_eq_imp_length_eq)
  with assms(2) show ne: "mid \<noteq> []" by auto
  have "hd (lower mid) = hd (lower kw)" "last (lower mid) = last (lower kw)"
    using assms(1) by simp_all
  then have "lower_char (hd mid) = lower_char (hd kw)" "lower_char (last mid) = lower_char (last kw)"
    using ne assms(2) by (simp_all add: lower_def hd_map last_map)
  then have "is_word_char (lower_char (hd mid)) = is_word_char (lower_char (hd kw))"
    "is_word_char (lower_char (last mid)) = is_word_char (lower_char (last kw))"
    by simp_all
  then show "is_word_char (hd mid) = is_word_char (hd kw)"
    and "is_word_char (last mid) = is_word_char (last kw)"
    by (simp_all only: is_word_lower)
qed

lemma word_search_whole_word:
  assumes "word_search kw text" and "kw \<noteq> []"
    and "word_character (hd kw)" and "word_character (last kw)"
  shows "\<exists>pre mid post. text = pre @ mid @ post \<and> case_folded mid = case_folded kw
           \<and> \<not> ends_in_word pre \<and> \<not> starts_with_word post"
proof -
  from assms(1) obtain pre mid post where h: "text = pre @ mid @ post"
    "case_folded mid = case_folded kw"
    "word_boundary pre (mid @ post)" "word_boundary (pre @ mid) post"
    unfolding word_search_iff whole_word_occurrence_def by blast
  from h(2) have "lower mid = lower kw"
    by (simp only: lower_case_folded)
  note e = lower_eq_ends [OF this assms(2), unfolded is_word_char_iff]
  have "starts_with_word (mid @ post)"
    using e(1,2) assms(3) by (simp add: starts_with_word_def)
  with h(3) have 1: "\<not> ends_in_word pre"
    by (simp add: word_boundary_def)
  have "ends_in_word (pre @ mid)"
    using e(1,3) assms(4) by (simp add: ends_in_word_def)
  with h(4) have 2: "\<not> starts_with_word post"
    by (simp add: word_boundary_def)
  from h(1,2) 1 2 show ?thesis by blast
qed

lemma keyword_loop_iff: "keyword_loop text kws \<longleftrightarrow> list_ex (\<lambda>kw. word_search kw text) kws"
  by (induction kws) auto

lemma pattern_loop_compile:
  "list_all (\<lambda>p. re (pattern p) text \<noteq> None) ps \<Longrightarrow>
   pattern_loop re text ps = Inr (list_ex (\<lambda>p. re (pattern p) text = Some True) ps)"
  by (induction ps) (auto split: option.splits bool.splits)

lemma ambiguity_checker_keyword:
  "keyword_hit d \<Longrightarrow> ambiguity_checker re d = Inr (Some ''Ambiguous source of funds'')"
  by (simp add: ambiguity_checker_def keyword_hit_def keyword_loop_iff)

lemma ambiguity_checker_compile:
  "patterns_compile re d \<Longrightarrow>
   ambiguity_checker re d =
     Inr (if keyword_hit d \<or> pattern_hit re d then Some ''Ambiguous source of funds''
          else if contains ''does not meet'' (scan_text (questionnaire d))
               then Some ''Investor is not accredited'' else None)"
  by (simp add: ambiguity_checker_def keyword_hit_def pattern_hit_def patterns_compile_def
      keyword_loop_iff pattern_loop_compile Let_def)

lemma amount_accepted:
  "investment_amount (questionnaire d) = Some a \<Longrightarrow> a \<noteq> 0 \<Longrightarrow> min_investment_amount d \<le> a
   \<Longrightarrow> \<not> amount_rejected d"
  by (simp add: amount_rejected_def)

lemma make_response_screened:
  assumes "basic_review d = Inr []" and "\<not> amount_rejected d"
    and "is_accredited_investor (questionnaire d)"
    and "ambiguity_checker re d = Inr r"
  shows "decision_maker re d = Inr (if r \<noteq> None \<and> r \<noteq> Some [] then ''Escalate'' else ''Approve'')"
    and "make_response re d =
       Inr \<lparr>resp_questionnaire_id = questionnaire_id (questionnaire d),
            decision = (if r \<noteq> None \<and> r \<noteq> Some [] then ''Escalate'' else ''Approve''),
            missing_fields = Some [],
            escalation_reason = (if r \<noteq> None \<and> r \<noteq> Some [] then r else None)\<rparr>"
  using assms by (simp_all add: make_response_def decision_maker_def)

lemma make_response_unaccredited:
  assumes "basic_review d = Inr []" and "\<not> amount_rejected d"
    and "\<not> is_accredited_investor (questionnaire d)"
  shows "decision_maker re d = Inr ''Escalate''"
    and "make_response re d =
       (case ambiguity_checker re d of
          Inl e \<Rightarrow> Inl e
        | Inr r \<Rightarrow> Inr \<lparr>resp_questionnaire_id = questionnaire_id (questionnaire d),
                       decision = ''Escalate'', missing_fields = Some [],
                       escalation_reason = r\<rparr>)"
  using assms by (simp_all add: make_response_def decision_maker_def split: sum.splits)


text \<open>
  C2. The scan text of the code is the narrative text: the case-folded concatenation of the
  accreditation details and the description of the source of funds. A keyword hit is a
  whole-word occurrence of a registry keyword in it, a pattern hit is a match of a registry
  pattern by the search of the engine on it, and the last test is that it has the phrase
  "does not meet" as a part. For a questionnaire that passes the structural checks
  (accredited, no missing field, an amount that is present, not zero and not below the
  minimum): a keyword hit gives Escalate with reason "Ambiguous source of funds", before
  any pattern is tried, so also when a pattern would not compile. When every pattern
  compiles, the response is Escalate with that reason exactly when there is a keyword hit
  or a pattern hit; when there is neither, the phrase "does not meet" gives Escalate with
  reason "Investor is not accredited", and its absence gives Approve. "tbd" is found in
  "funds are tbd." and not in "we were outbid".
\<close>

theorem screening_decides:
  assumes "is_accredited_investor (questionnaire d)"
    and "basic_review d = Inr []"
    and "investment_amount (questionnaire d) = Some a"
    and "a \<noteq> 0" and "min_investment_amount d \<le> a"
  shows "scan_text (questionnaire d) = narrative_text (questionnaire d)
       \<and> (keyword_hit d \<longleftrightarrow>
            (\<exists>kw \<in> set (suspicious_keywords d).
               whole_word_occurrence kw (narrative_text (questionnaire d))))
       \<and> (pattern_hit re d \<longleftrightarrow>
            (\<exists>p \<in> set (suspicious_patterns d).
               re (pattern p) (narrative_text (questionnaire d)) = Some True))
       \<and> (contains ''does not meet'' (scan_text (questionnaire d)) \<longleftrightarrow>
            (\<exists>pre post. narrative_text (questionnaire d) = pre @ ''does not meet'' @ post))
       \<and> (keyword_hit d \<longrightarrow>
            make_response re d =
              Inr \<lparr>resp_questionnaire_id = questionnaire_id (questionnaire d),
                   decision = ''Escalate'', missing_fields = Some [],
                   escalation_reason = Some ''Ambiguous source of funds''\<rparr>)
       \<and> (patterns_compile re d \<longrightarrow>
            ((\<exists>r. make_response re d = Inr r \<and> decision r = ''Escalate''
                  \<and> escalation_reason r = Some ''Ambiguous source of funds'')
               \<longleftrightarrow> keyword_hit d \<or> pattern_hit re d)
            \<and> (\<not> keyword_hit d \<and> \<not> pattern_hit re d \<longrightarrow>
                 make_response re d =
                   Inr \<lparr>resp_questionnaire_id = questionnaire_id (questionnaire d),
                        decision = (if contains ''does not meet'' (scan_text (questionnaire d))
                                    then ''Escalate'' else ''Approve''),
                        missing_fields = Some [],
                        escalation_reason =
                          (if contains ''does not meet'' (scan_text (questionnaire d))
                           then Some ''Investor is not accredited'' else None)\<rparr>))
       \<and> word_search ''tbd'' ''funds are tbd.''
       \<and> \<not> word_search ''tbd'' ''we were outbid''"
proof -
  have acc: "\<not> amount_rejected d"
    using assms(3-5) by (rule amount_accepted)
  have st: "scan_text (questionnaire d) = narrative_text (questionnaire d)"
    by (rule scan_text_narrative)
  have ww: "keyword_hit d \<longleftrightarrow>
            (\<exists>kw \<in> set (suspicious_keywords d).
               whole_word_occurrence kw (narrative_text (questionnaire d)))"
    by (simp add: keyword_hit_def list_ex_iff word_search_iff scan_text_narrative)
  have ph: "pattern_hit re d \<longleftrightarrow>
            (\<exists>p \<in> set (suspicious_patterns d).
               re (pattern p) (narrative_text (questionnaire d)) = Some True)"
    by (simp add: pattern_hit_def list_ex_iff scan_text_narrative)
  have dn: "contains ''does not meet'' (scan_text (questionnaire d)) \<longleftrightarrow>
            (\<exists>pre post. narrative_text (questionnaire d) = pre @ ''does not meet'' @ post)"
    by (simp only: contains_sublist sublist_def scan_text_narrative)
  have kw: "make_response re d =
              Inr \<lparr>resp_questionnaire_id = questionnaire_id (questionnaire d),
                   decision = ''Escalate'', missing_fields = Some [],
                   escalation_reason = Some ''Ambiguous source of funds''\<rparr>"
    if "keyword_hit d"
    using make_response_screened(2) [OF assms(2) acc assms(1) ambiguity_checker_keyword [OF that]]
    by simp
  have pat: "make_response re d =
       Inr \<lparr>resp_questionnaire_id = questionnaire_id (questionnaire d),
            decision = (if keyword_hit d \<or> pattern_hit re d
                           \<or> contains ''does not meet'' (scan_text (questionnaire d))
                        then ''Escalate'' else ''Approve''),
            missing_fields = Some [],
            escalation_reason =
              (if keyword_hit d \<or> pattern_hit re d then Some ''Ambiguous source of funds''
               else if contains ''does not meet'' (scan_text (questionnaire d))
                    then Some ''Investor is not accredited'' else None)\<rparr>"
    if "patterns_compile re d"
    using make_response_screened(2)
      [OF assms(2) acc assms(1) ambiguity_checker_compile [OF that]]
    by simp
  have iff: "(\<exists>r. make_response re d = Inr r \<and> decision r = ''Escalate''
                  \<and> escalation_reason r = Some ''Ambiguous source of funds'')
               \<longleftrightarrow> keyword_hit d \<or> pattern_hit re d"
    if "patterns_compile re d"
    by (simp add: pat [OF that])
  have rest: "make_response re d =
                   Inr \<lparr>resp_questionnaire_id = questionnaire_id (questionnaire d),
                        decision = (if contains ''does not meet'' (scan_text (questionnaire d))
                                    then ''Escalate'' else ''Approve''),
                        missing_fields = Some [],
                        escalation_reason =
                          (if contains ''does not meet'' (scan_text (questionnaire d))
                           then Some ''Investor is not accredited'' else None)\<rparr>"
    if "patterns_compile re d" "\<not> keyword_hit d" "\<not> pattern_hit re d"
    using that by (simp add: pat)
  have ex1: "word_search ''tbd'' ''funds are tbd.''"
    by code_simp
  have ex2: "\<not> word_search ''tbd'' ''we were outbid''"
    by code_simp
  show ?thesis
    apply (intro conjI impI)
    subgoal by (rule st)
    subgoal by (rule ww)
    subgoal by (rule ph)
    subgoal by (rule dn)
    subgoal by (rule kw)
    subgoal by (rule iff)
    subgoal by (rule rest) simp_all
    subgoal by (rule ex1)
    subgoal by (rule ex2)
    done
qed

theorem screening_decides_witness:
  "is_accredited_investor (questionnaire keyword_deps)
   \<and> basic_review keyword_deps = Inr []
   \<and> investment_amount (questionnaire keyword_deps) = Some 250000
   \<and> min_investment_amount keyword_deps \<le> 250000
   \<and> scan_text (questionnaire keyword_deps) = ''net worth above the threshold funds are tbd.''
   \<and> narrative_text (questionnaire keyword_deps)
        = ''net worth above the threshold funds are tbd.''
   \<and> keyword_hit keyword_deps
   \<and> \<not> patterns_compile failing_engine keyword_deps
   \<and> make_response failing_engine keyword_deps =
        Inr \<lparr>resp_questionnaire_id = ''Q-001'', decision = ''Escalate'',
             missing_fields = Some [],
             escalation_reason = Some ''Ambiguous source of funds''\<rparr>
   \<and> scan_text (questionnaire pending_deps) = ''status pending review salary and savings''
   \<and> patterns_compile literal_engine pending_deps
   \<and> \<not> keyword_hit pending_deps
   \<and> pattern_hit literal_engine pending_deps
   \<and> (\<exists>r. make_response literal_engine pending_deps = Inr r \<and> decision r = ''Escalate''
           \<and> escalation_reason r = Some ''Ambiguous source of funds'')
   \<and> scan_text (questionnaire clean_deps)
        = ''net worth above the threshold we were outbid twice''
   \<and> \<not> keyword_hit clean_deps
   \<and> make_response literal_engine clean_deps =
        Inr \<lparr>resp_questionnaire_id = ''Q-001'', decision = ''Approve'',
             missing_fields = Some [], escalation_reason = None\<rparr>"
proof -
  have n0: "(250000::real) \<noteq> 0"
    by simp
  have k1: "is_accredited_investor (questionnaire keyword_deps)"
    by code_simp
  have k2: "basic_review keyword_deps = Inr []"
    by code_simp
  have k3: "investment_amount (questionnaire keyword_deps) = Some 250000"
    by (simp add: keyword_deps_def eval_simps)
  have k5: "min_investment_amount keyword_deps \<le> 250000"
    by (simp add: keyword_deps_def eval_simps)
  have ks: "scan_text (questionnaire keyword_deps)
              = ''net worth above the threshold funds are tbd.''"
    by code_simp
  have kh: "keyword_hit keyword_deps"
    by code_simp
  have kc: "\<not> patterns_compile failing_engine keyword_deps"
    by code_simp
  have kq: "questionnaire_id (questionnaire keyword_deps) = ''Q-001''"
    by (simp add: keyword_deps_def eval_simps)
  note kt = screening_decides [OF k1 k2 k3 n0 k5, of failing_engine]
  have kn: "narrative_text (questionnaire keyword_deps)
              = ''net worth above the threshold funds are tbd.''"
    using kt [THEN conjunct1] ks by simp
  have kr: "make_response failing_engine keyword_deps =
        Inr \<lparr>resp_questionnaire_id = ''Q-001'', decision = ''Escalate'',
             missing_fields = Some [],
             escalation_reason = Some ''Ambiguous source of funds''\<rparr>"
    using kt [THEN conjunct2, THEN conjunct2, THEN conjunct2, THEN conjunct2, THEN conjunct1,
        THEN mp, OF kh] kq by simp
  have p1: "is_accredited_investor (questionnaire pending_deps)"
    by code_simp
  have p2: "basic_review pending_deps = Inr []"
    by code_simp
  have p3: "investment_amount (questionnaire pending_deps) = Some 250000"
    by (simp add: pending_deps_def eval_simps)
  have p5: "min_investment_amount pending_deps \<le> 250000"
    by (simp add: pending_deps_def eval_simps)
  have ps: "scan_text (questionnaire pending_deps) = ''status pending review salary and savings''"
    by code_simp
  have pc: "patterns_compile literal_engine pending_deps"
    by code_simp
  have pk: "\<not> keyword_hit pending_deps"
    by code_simp
  have pp: "pattern_hit literal_engine pending_deps"
    by code_simp
  note pt = screening_decides [OF p1 p2 p3 n0 p5, of literal_engine, THEN conjunct2,
      THEN conjunct2, THEN conjunct2, THEN conjunct2, THEN conjunct2, THEN conjunct1,
      THEN mp, OF pc]
  have pr: "\<exists>r. make_response literal_engine pending_deps = Inr r \<and> decision r = ''Escalate''
           \<and> escalation_reason r = Some ''Ambiguous source of funds''"
    using pt [THEN conjunct1] pp by blast
  have c1: "is_accredited_investor (questionnaire clean_deps)"
    by code_simp
  have c2: "basic_review clean_deps = Inr []"
    by code_simp
  have c3: "investment_amount (questionnaire clean_deps) = Some 250000"
    by (simp add: clean_deps_def eval_simps)
  have c5: "min_investment_amount clean_deps \<le> 250000"
    by (simp add: clean_deps_def eval_simps)
  have cs: "scan_text (questionnaire clean_deps)
              = ''net worth above the threshold we were outbid twice''"
    by code_simp
  have cc: "patterns_compile literal_engine clean_deps"
    by code_simp
  have ck: "\<not> keyword_hit clean_deps"
    by code_simp
  have cp: "\<not> pattern_hit literal_engine clean_deps"
    by code_simp
  have cn: "\<not> contains ''does not meet'' (scan_text (questionnaire clean_deps))"
    by code_simp
  have cq: "questionnaire_id (questionnaire clean_deps) = ''Q-001''"
    by (simp add: clean_deps_def eval_simps)
  note ct = screening_decides [OF c1 c2 c3 n0 c5, of literal_engine, THEN conjunct2,
      THEN conjunct2, THEN conjunct2, THEN conjunct2, THEN conjunct2, THEN conjunct1,
      THEN mp, OF cc, THEN conjunct2, THEN mp, OF conjI [OF ck cp]]
  have cr: "make_response literal_engine clean_deps =
        Inr \<lparr>resp_questionnaire_id = ''Q-001'', decision = ''Approve'',
             missing_fields = Some [], escalation_reason = None\<rparr>"
    using ct cn cq by simp
  from k1 k2 k3 k5 ks kn kh kc kr ps pc pk pp pr cs ck cr show ?thesis by blast
qed

section \<open>The response log\<close>

lemma process_questionnaire_Inr:
  "process_questionnaire re d file = Inr (resp, file') \<longleftrightarrow>
     make_response re d = Inr resp
     \<and> (\<exists>rs. load_responses file = Inr rs \<and> file' = LogEntries (rs @ [response_dict resp]))"
  by (auto simp: process_questionnaire_def split: sum.splits)

lemma response_dict_fields:
  "resp_questionnaire_id (response_dict r) = resp_questionnaire_id r"
  "decision (response_dict r) = decision r"
  "missing_fields r = Some [] \<Longrightarrow> missing_fields (response_dict r) = None"
  "escalation_reason (response_dict r) \<noteq> None \<Longrightarrow> decision r = ''Escalate''"
  by (auto simp: response_dict_def Let_def split: if_splits)

text \<open>
  C5. A questionnaire that is accredited, has no missing field, has an amount that is
  present, not zero and not below the minimum, and whose text matches no keyword, no
  pattern and does not contain "does not meet" is classified Approve, with no escalation
  reason; the document appended to the response log has \<open>missing_fields\<close> and
  \<open>escalation_reason\<close> null. In the document of every run, \<open>missing_fields\<close> is null when
  the missing-field list is empty, and \<open>escalation_reason\<close> is not null only when the
  decision is Escalate.
\<close>

theorem clean_is_approved:
  assumes "is_accredited_investor (questionnaire d)"
    and "basic_review d = Inr []"
    and "investment_amount (questionnaire d) = Some a"
    and "a \<noteq> 0" and "min_investment_amount d \<le> a"
    and "\<not> keyword_hit d"
    and "patterns_compile re d" and "\<not> pattern_hit re d"
    and "\<not> contains ''does not meet'' (scan_text (questionnaire d))"
  shows "decision_maker re d = Inr ''Approve''
       \<and> make_response re d =
           Inr \<lparr>resp_questionnaire_id = questionnaire_id (questionnaire d),
                decision = ''Approve'', missing_fields = Some [], escalation_reason = None\<rparr>
       \<and> (\<forall>file rs. load_responses file = Inr rs \<longrightarrow>
            process_questionnaire re d file =
              Inr (\<lparr>resp_questionnaire_id = questionnaire_id (questionnaire d),
                    decision = ''Approve'', missing_fields = Some [], escalation_reason = None\<rparr>,
                   LogEntries
                     (rs @ [\<lparr>resp_questionnaire_id = questionnaire_id (questionnaire d),
                             decision = ''Approve'', missing_fields = None,
                             escalation_reason = None\<rparr>])))
       \<and> (\<forall>re' d' file resp file'.
            process_questionnaire re' d' file = Inr (resp, file') \<longrightarrow>
              (\<exists>rs doc. file' = LogEntries (rs @ [doc])
                 \<and> decision doc = decision resp
                 \<and> (missing_fields resp = Some [] \<longrightarrow> missing_fields doc = None)
                 \<and> (escalation_reason doc \<noteq> None \<longrightarrow> decision doc = ''Escalate'')))"
proof -
  have acc: "\<not> amount_rejected d"
    using assms(3-5) by (rule amount_accepted)
  have amb: "ambiguity_checker re d = Inr None"
    using ambiguity_checker_compile [OF assms(7)] assms(6,8,9) by simp
  have dm: "decision_maker re d = Inr ''Approve''"
    using make_response_screened(1) [OF assms(2) acc assms(1) amb] by simp
  have mr: "make_response re d =
           Inr \<lparr>resp_questionnaire_id = questionnaire_id (questionnaire d),
                decision = ''Approve'', missing_fields = Some [], escalation_reason = None\<rparr>"
    using make_response_screened(2) [OF assms(2) acc assms(1) amb] by simp
  have pq: "process_questionnaire re d lf =
              Inr (\<lparr>resp_questionnaire_id = questionnaire_id (questionnaire d),
                    decision = ''Approve'', missing_fields = Some [], escalation_reason = None\<rparr>,
                   LogEntries
                     (rs @ [\<lparr>resp_questionnaire_id = questionnaire_id (questionnaire d),
                             decision = ''Approve'', missing_fields = None,
                             escalation_reason = None\<rparr>]))"
    if "load_responses lf = Inr rs" for lf rs
    using that by (simp add: process_questionnaire_def mr response_dict_def)
  have doc: "\<exists>rs doc. lf' = LogEntries (rs @ [doc])
                 \<and> decision doc = decision resp
                 \<and> (missing_fields resp = Some [] \<longrightarrow> missing_fields doc = None)
                 \<and> (escalation_reason doc \<noteq> None \<longrightarrow> decision doc = ''Escalate'')"
    if "process_questionnaire re' d' lf = Inr (resp, lf')" for re' d' lf resp lf'
  proof -
    from that obtain rs where "lf' = LogEntries (rs @ [response_dict resp])"
      by (auto simp: process_questionnaire_Inr)
    then show ?thesis
      using response_dict_fields [of resp] by metis
  qed
  from dm mr pq doc show ?thesis by blast
qed

theorem clean_is_approved_witness:
  "is_accredited_investor (questionnaire clean_deps)
   \<and> basic_review clean_deps = Inr []
   \<and> investment_amount (questionnaire clean_deps) = Some 250000
   \<and> min_investment_amount clean_deps \<le> 250000
   \<and> \<not> keyword_hit clean_deps
   \<and> patterns_compile literal_engine clean_deps
   \<and> \<not> pattern_hit literal_engine clean_deps
   \<and> \<not> contains ''does not meet'' (scan_text (questionnaire clean_deps))
   \<and> process_questionnaire literal_engine clean_deps LogMissing =
       Inr (\<lparr>resp_questionnaire_id = ''Q-001'', decision = ''Approve'',
             missing_fields = Some [], escalation_reason = None\<rparr>,
            LogEntries [\<lparr>resp_questionnaire_id = ''Q-001'', decision = ''Approve'',
                         missing_fields = None, escalation_reason = None\<rparr>])"
proof -
  have h1: "is_accredited_investor (questionnaire clean_deps)"
    by code_simp
  have h2: "basic_review clean_deps = Inr []"
    by code_simp
  have h3: "investment_amount (questionnaire clean_deps) = Some 250000"
    by (simp add: clean_deps_def eval_simps)
  have h4: "(250000::real) \<noteq> 0"
    by simp
  have h5: "min_investment_amount clean_deps \<le> 250000"
    by (simp add: clean_deps_def eval_simps)
  have h6: "\<not> keyword_hit clean_deps"
    by code_simp
  have h7: "patterns_compile literal_engine clean_deps"
    by code_simp
  have h8: "\<not> pattern_hit literal_engine clean_deps"
    by code_simp
  have h9: "\<not> contains ''does not meet'' (scan_text (questionnaire clean_deps))"
    by code_simp
  have l: "load_responses LogMissing = Inr []"
    by (simp add: load_responses_def)
  have q: "questionnaire_id (questionnaire clean_deps) = ''Q-001''"
    by (simp add: clean_deps_def eval_simps)
  from clean_is_approved [OF h1 h2 h3 h4 h5 h6 h7 h8 h9] l q
  have "process_questionnaire literal_engine clean_deps LogMissing =
       Inr (\<lparr>resp_questionnaire_id = ''Q-001'', decision = ''Approve'',
             missing_fields = Some [], escalation_reason = None\<rparr>,
            LogEntries ([] @ [\<lparr>resp_questionnaire_id = ''Q-001'', decision = ''Approve'',
                         missing_fields = None, escalation_reason = None\<rparr>]))"
    by metis
  with h1 h2 h3 h5 h6 h7 h8 h9 show ?thesis by simp
qed

section \<open>Non-accredited investors\<close>

text \<open>
  C3, as the code has it. For a questionnaire with the accreditation flag false, no missing
  field and an amount that is not zero and above the minimum, the classification is
  Escalate, and the escalation reason of the response, and of the document appended to the
  log, is what the Text Screener returns on the narrative text. A keyword match gives
  "Ambiguous source of funds", whether the patterns compile or not. When every pattern
  compiles, the reason is "Ambiguous source of funds" exactly when a keyword or a pattern
  matches, "Investor is not accredited" exactly when none matches and the text contains
  "does not meet", and empty exactly when the text matches no keyword, no pattern and
  does not contain "does not meet".
\<close>

theorem unaccredited_is_escalated:
  assumes "\<not> is_accredited_investor (questionnaire d)"
    and "basic_review d = Inr []"
    and "investment_amount (questionnaire d) = Some a"
    and "a \<noteq> 0" and "min_investment_amount d < a"
  shows "decision_maker re d = Inr ''Escalate''
       \<and> make_response re d =
           (case ambiguity_checker re d of
              Inl e \<Rightarrow> Inl e
            | Inr r \<Rightarrow> Inr \<lparr>resp_questionnaire_id = questionnaire_id (questionnaire d),
                           decision = ''Escalate'', missing_fields = Some [],
                           escalation_reason = r\<rparr>)
       \<and> (keyword_hit d \<longrightarrow>
            make_response re d =
              Inr \<lparr>resp_questionnaire_id = questionnaire_id (questionnaire d),
                   decision = ''Escalate'', missing_fields = Some [],
                   escalation_reason = Some ''Ambiguous source of funds''\<rparr>)
       \<and> (patterns_compile re d \<longrightarrow>
            make_response re d =
              Inr \<lparr>resp_questionnaire_id = questionnaire_id (questionnaire d),
                   decision = ''Escalate'', missing_fields = Some [],
                   escalation_reason =
                     (if keyword_hit d \<or> pattern_hit re d
                      then Some ''Ambiguous source of funds''
                      else if contains ''does not meet'' (scan_text (questionnaire d))
                           then Some ''Investor is not accredited'' else None)\<rparr>
            \<and> ((\<exists>r. make_response re d = Inr r
                     \<and> escalation_reason r = Some ''Ambiguous source of funds'')
                  \<longleftrightarrow> keyword_hit d \<or> pattern_hit re d)
            \<and> ((\<exists>r. make_response re d = Inr r
                     \<and> escalation_reason r = Some ''Investor is not accredited'')
                  \<longleftrightarrow> \<not> keyword_hit d \<and> \<not> pattern_hit re d
                       \<and> contains ''does not meet'' (scan_text (questionnaire d)))
            \<and> ((\<exists>r. make_response re d = Inr r \<and> escalation_reason r = None)
                  \<longleftrightarrow> \<not> keyword_hit d \<and> \<not> pattern_hit re d
                       \<and> \<not> contains ''does not meet'' (scan_text (questionnaire d))))
       \<and> (\<forall>r lf rs. make_response re d = Inr r \<longrightarrow> load_responses lf = Inr rs \<longrightarrow>
            process_questionnaire re d lf =
              Inr (r, LogEntries (rs @ [r\<lparr>missing_fields := None\<rparr>]))
            \<and> decision r = ''Escalate'')"
proof -
  let ?text = "scan_text (questionnaire d)"
  let ?reason = "if keyword_hit d \<or> pattern_hit re d then Some ''Ambiguous source of funds''
                 else if contains ''does not meet'' ?text
                      then Some ''Investor is not accredited'' else None"
  have acc: "\<not> amount_rejected d"
    using assms(3-5) by (simp add: amount_rejected_def)
  note u = make_response_unaccredited [OF assms(2) acc assms(1)]
  have kw: "make_response re d =
              Inr \<lparr>resp_questionnaire_id = questionnaire_id (questionnaire d),
                   decision = ''Escalate'', missing_fields = Some [],
                   escalation_reason = Some ''Ambiguous source of funds''\<rparr>"
    if "keyword_hit d"
    by (simp add: u(2) ambiguity_checker_keyword [OF that])
  have eq: "make_response re d =
              Inr \<lparr>resp_questionnaire_id = questionnaire_id (questionnaire d),
                   decision = ''Escalate'', missing_fields = Some [],
                   escalation_reason = ?reason\<rparr>"
    if "patterns_compile re d"
    by (simp only: u(2) ambiguity_checker_compile [OF that] sum.case)
  have amb: "(\<exists>r. make_response re d = Inr r
                     \<and> escalation_reason r = Some ''Ambiguous source of funds'')
                  \<longleftrightarrow> keyword_hit d \<or> pattern_hit re d"
    if "patterns_compile re d"
    by (simp add: eq [OF that])
  have unmet: "(\<exists>r. make_response re d = Inr r
                     \<and> escalation_reason r = Some ''Investor is not accredited'')
                  \<longleftrightarrow> \<not> keyword_hit d \<and> \<not> pattern_hit re d \<and> contains ''does not meet'' ?text"
    if "patterns_compile re d"
    by (simp add: eq [OF that])
  have none: "(\<exists>r. make_response re d = Inr r \<and> escalation_reason r = None)
                  \<longleftrightarrow> \<not> keyword_hit d \<and> \<not> pattern_hit re d
                       \<and> \<not> contains ''does not meet'' ?text"
    if "patterns_compile re d"
    by (simp add: eq [OF that])
  have doc: "process_questionnaire re d lf =
              Inr (r, LogEntries (rs @ [r\<lparr>missing_fields := None\<rparr>]))
            \<and> decision r = ''Escalate''"
    if r: "make_response re d = Inr r" and l: "load_responses lf = Inr rs" for r lf rs
  proof -
    from r obtain x where x: "ambiguity_checker re d = Inr x"
      and rx: "r = \<lparr>resp_questionnaire_id = questionnaire_id (questionnaire d),
                    decision = ''Escalate'', missing_fields = Some [],
                    escalation_reason = x\<rparr>"
      unfolding u(2) by (auto split: sum.splits)
    have "response_dict r = r\<lparr>missing_fields := None\<rparr>"
      by (simp add: rx response_dict_def)
    then show ?thesis
      using r l by (simp add: process_questionnaire_def rx)
  qed
  from u(1) u(2) kw eq amb unmet none doc show ?thesis by blast
qed


theorem unaccredited_is_escalated_witness:
  "\<not> is_accredited_investor (questionnaire unaccredited_pending_deps)
   \<and> basic_review unaccredited_pending_deps = Inr []
   \<and> investment_amount (questionnaire unaccredited_pending_deps) = Some 250000
   \<and> min_investment_amount unaccredited_pending_deps < 250000
   \<and> patterns_compile literal_engine unaccredited_pending_deps
   \<and> \<not> keyword_hit unaccredited_pending_deps
   \<and> pattern_hit literal_engine unaccredited_pending_deps
   \<and> decision_maker literal_engine unaccredited_pending_deps = Inr ''Escalate''
   \<and> make_response literal_engine unaccredited_pending_deps =
        Inr \<lparr>resp_questionnaire_id = ''Q-001'', decision = ''Escalate'',
             missing_fields = Some [],
             escalation_reason = Some ''Ambiguous source of funds''\<rparr>
   \<and> make_response literal_engine unaccredited_unmet_deps =
        Inr \<lparr>resp_questionnaire_id = ''Q-001'', decision = ''Escalate'',
             missing_fields = Some [],
             escalation_reason = Some ''Investor is not accredited''\<rparr>
   \<and> make_response literal_engine unaccredited_clean_deps =
        Inr \<lparr>resp_questionnaire_id = ''Q-001'', decision = ''Escalate'',
             missing_fields = Some [], escalation_reason = None\<rparr>"
proof -
  have h1: "\<not> is_accredited_investor (questionnaire unaccredited_pending_deps)"
    by code_simp
  have h2: "basic_review unaccredited_pending_deps = Inr []"
    by code_simp
  have h3: "investment_amount (questionnaire unaccredited_pending_deps) = Some 250000"
    by (simp add: unaccredited_pending_deps_def eval_simps)
  have h4: "(250000::real) \<noteq> 0"
    by simp
  have h5: "min_investment_amount unaccredited_pending_deps < 250000"
    by (simp add: unaccredited_pending_deps_def eval_simps)
  have c: "patterns_compile literal_engine unaccredited_pending_deps"
    by code_simp
  have k: "\<not> keyword_hit unaccredited_pending_deps"
    by code_simp
  have p: "pattern_hit literal_engine unaccredited_pending_deps"
    by code_simp
  have q: "questionnaire_id (questionnaire unaccredited_pending_deps) = ''Q-001''"
    by (simp add: unaccredited_pending_deps_def eval_simps)
  note t1 = unaccredited_is_escalated [OF h1 h2 h3 h4 h5, of literal_engine]
  have d1: "decision_maker literal_engine unaccredited_pending_deps = Inr ''Escalate''"
    using t1 by (rule conjunct1)
  note e1 = t1 [THEN conjunct2, THEN conjunct2, THEN conjunct2, THEN conjunct1, THEN mp, OF c,
      THEN conjunct1]
  have r1: "make_response literal_engine unaccredited_pending_deps =
        Inr \<lparr>resp_questionnaire_id = ''Q-001'', decision = ''Escalate'',
             missing_fields = Some [],
             escalation_reason = Some ''Ambiguous source of funds''\<rparr>"
    using e1 p q by simp
  have u1: "\<not> is_accredited_investor (questionnaire unaccredited_unmet_deps)"
    by code_simp
  have u2: "basic_review unaccredited_unmet_deps = Inr []"
    by code_simp
  have u3: "investment_amount (questionnaire unaccredited_unmet_deps) = Some 250000"
    by (simp add: unaccredited_unmet_deps_def eval_simps)
  have u5: "min_investment_amount unaccredited_unmet_deps < 250000"
    by (simp add: unaccredited_unmet_deps_def eval_simps)
  have uc: "patterns_compile literal_engine unaccredited_unmet_deps"
    by code_simp
  have uk: "\<not> keyword_hit unaccredited_unmet_deps"
    by code_simp
  have up: "\<not> pattern_hit literal_engine unaccredited_unmet_deps"
    by code_simp
  have un: "contains ''does not meet'' (scan_text (questionnaire unaccredited_unmet_deps))"
    by code_simp
  have uq: "questionnaire_id (questionnaire unaccredited_unmet_deps) = ''Q-001''"
    by (simp add: unaccredited_unmet_deps_def eval_simps)
  note e2 = unaccredited_is_escalated [OF u1 u2 u3 h4 u5, of literal_engine, THEN conjunct2,
      THEN conjunct2, THEN conjunct2, THEN conjunct1, THEN mp, OF uc, THEN conjunct1]
  have r2: "make_response literal_engine unaccredited_unmet_deps =
        Inr \<lparr>resp_questionnaire_id = ''Q-001'', decision = ''Escalate'',
             missing_fields = Some [],
             escalation_reason = Some ''Investor is not accredited''\<rparr>"
    using e2 uk up un uq by simp
  have c1: "\<not> is_accredited_investor (questionnaire unaccredited_clean_deps)"
    by code_simp
  have c2: "basic_review unaccredited_clean_deps = Inr []"
    by code_simp
  have c3: "investment_amount (questionnaire unaccredited_clean_deps) = Some 250000"
    by (simp add: unaccredited_clean_deps_def eval_simps)
  have c5: "min_investment_amount unaccredited_clean_deps < 250000"
    by (simp add: unaccredited_clean_deps_def eval_simps)
  have cc: "patterns_compile literal_engine unaccredited_clean_deps"
    by code_simp
  have ck: "\<not> keyword_hit unaccredited_clean_deps"
    by code_simp
  have cp: "\<not> pattern_hit literal_engine unaccredited_clean_deps"
    by code_simp
  have cn: "\<not> contains ''does not meet'' (scan_text (questionnaire unaccredited_clean_deps))"
    by code_simp
  have cq: "questionnaire_id (questionnaire unaccredited_clean_deps) = ''Q-001''"
    by (simp add: unaccredited_clean_deps_def eval_simps)
  note e3 = unaccredited_is_escalated [OF c1 c2 c3 h4 c5, of literal_engine, THEN conjunct2,
      THEN conjunct2, THEN conjunct2, THEN conjunct1, THEN mp, OF cc, THEN conjunct1]
  have r3: "make_response literal_engine unaccredited_clean_deps =
        Inr \<lparr>resp_questionnaire_id = ''Q-001'', decision = ''Escalate'',
             missing_fields = Some [], escalation_reason = None\<rparr>"
    using e3 ck cp cn cq by simp
  from h1 h2 h3 h5 c k p d1 r1 r2 r3 show ?thesis by blast
qed

text \<open>
  C3 as stated fails. A non-accredited investor with no missing field, an amount above the
  minimum and the registered keyword "crypto" in the source of funds is escalated with a
  reason, in the response and in the document written to the log. And with a negative
  minimum and the amount not among the required fields, a non-accredited investor with
  amount 0 is classified Return.
\<close>

theorem unaccredited_reason_counterexample:
  "\<not> is_accredited_investor (questionnaire unaccredited_deps)
   \<and> basic_review unaccredited_deps = Inr []
   \<and> investment_amount (questionnaire unaccredited_deps) = Some 250000
   \<and> min_investment_amount unaccredited_deps < 250000
   \<and> process_questionnaire failing_engine unaccredited_deps LogMissing =
        Inr (\<lparr>resp_questionnaire_id = ''Q-001'', decision = ''Escalate'',
              missing_fields = Some [],
              escalation_reason = Some ''Ambiguous source of funds''\<rparr>,
             LogEntries [\<lparr>resp_questionnaire_id = ''Q-001'', decision = ''Escalate'',
                          missing_fields = None,
                          escalation_reason = Some ''Ambiguous source of funds''\<rparr>])
   \<and> \<not> is_accredited_investor (questionnaire unaccredited_zero_deps)
   \<and> basic_review unaccredited_zero_deps = Inr []
   \<and> investment_amount (questionnaire unaccredited_zero_deps) = Some 0
   \<and> min_investment_amount unaccredited_zero_deps < 0
   \<and> decision_maker failing_engine unaccredited_zero_deps = Inr ''Return''"
proof -
  have a1: "\<not> is_accredited_investor (questionnaire unaccredited_deps)"
    by code_simp
  have a2: "basic_review unaccredited_deps = Inr []"
    by code_simp
  have a3: "investment_amount (questionnaire unaccredited_deps) = Some 250000"
    by (simp add: unaccredited_deps_def eval_simps)
  have a4: "min_investment_amount unaccredited_deps < 250000"
    by (simp add: unaccredited_deps_def eval_simps)
  have a5: "process_questionnaire failing_engine unaccredited_deps LogMissing =
        Inr (\<lparr>resp_questionnaire_id = ''Q-001'', decision = ''Escalate'',
              missing_fields = Some [],
              escalation_reason = Some ''Ambiguous source of funds''\<rparr>,
             LogEntries [\<lparr>resp_questionnaire_id = ''Q-001'', decision = ''Escalate'',
                          missing_fields = None,
                          escalation_reason = Some ''Ambiguous source of funds''\<rparr>])"
    by code_simp
  have b1: "\<not> is_accredited_investor (questionnaire unaccredited_zero_deps)"
    by code_simp
  have b2: "basic_review unaccredited_zero_deps = Inr []"
    by code_simp
  have b3: "investment_amount (questionnaire unaccredited_zero_deps) = Some 0"
    by (simp add: unaccredited_zero_deps_def eval_simps)
  have b4: "min_investment_amount unaccredited_zero_deps < 0"
    by (simp add: unaccredited_zero_deps_def eval_simps)
  have b5: "decision_maker failing_engine unaccredited_zero_deps = Inr ''Return''"
    by code_simp
  from a1 a2 a3 a4 a5 b1 b2 b3 b4 b5 show ?thesis by blast
qed

section \<open>The amount at the minimum\<close>

lemma insufficient_amount_returned:
  assumes "fields_known d"
    and "investment_amount (questionnaire d) = None
         \<or> (\<exists>a. investment_amount (questionnaire d) = Some a
                \<and> (a = 0 \<or> a < min_investment_amount d
                    \<or> (a \<le> min_investment_amount d
                        \<and> ''investment_amount'' \<in> set (required_fields d))))"
  shows "decision_maker re d = Inr ''Return''"
proof -
  let ?ms = "filter (field_deficient d) (required_fields d)"
  have br: "basic_review d = Inr ?ms"
    using assms(1) by (rule basic_review_known)
  show ?thesis
  proof (cases "amount_rejected d")
    case True
    with br show ?thesis by (rule decision_maker_amount)
  next
    case False
    with assms(2) obtain a where a: "investment_amount (questionnaire d) = Some a"
      "a \<le> min_investment_amount d" "''investment_amount'' \<in> set (required_fields d)"
      by (auto simp: amount_rejected_def)
    then have "field_deficient d ''investment_amount''"
      by (simp add: field_deficient_amount)
    with a(3) have "?ms \<noteq> []"
      by (auto simp: filter_empty_conv)
    with br show ?thesis by (rule decision_maker_missing)
  qed
qed

text \<open>
  C4, at the input where the code departs from it. The minimum is 1000, the amount is
  exactly 1000, and the amount is not among the configured required fields: the validator
  does not look at it, \<open>decision_maker\<close> compares with \<open><\<close> where \<open>basic_review\<close>
  compares with \<open><=\<close>, and the questionnaire is approved.
\<close>

theorem amount_at_minimum_approved:
  "investment_amount (questionnaire boundary_deps) = Some 1000
   \<and> min_investment_amount boundary_deps = 1000
   \<and> basic_review boundary_deps = Inr []
   \<and> decision_maker failing_engine boundary_deps = Inr ''Approve''"
proof -
  have a: "investment_amount (questionnaire boundary_deps) = Some 1000"
    by (simp add: boundary_deps_def eval_simps)
  have m: "min_investment_amount boundary_deps = 1000"
    by (simp add: boundary_deps_def eval_simps)
  have b: "basic_review boundary_deps = Inr []"
    by code_simp
  have d: "decision_maker failing_engine boundary_deps = Inr ''Approve''"
    by code_simp
  from a m b d show ?thesis by blast
qed

section \<open>Determinism\<close>

text \<open>
  C6. The decision is a function of the questionnaire, the registry snapshot (keywords
  and patterns) and the configured thresholds (minimum and required fields): two
  configurations that agree on these give the same classification and the same response,
  whatever the path and the contents of the response log are; the documents appended by
  two runs are the same; and a second run on the log that the first one wrote returns the
  same response again.
\<close>

theorem decision_is_deterministic:
  assumes "questionnaire d1 = questionnaire d2"
    and "min_investment_amount d1 = min_investment_amount d2"
    and "required_fields d1 = required_fields d2"
    and "suspicious_keywords d1 = suspicious_keywords d2"
    and "suspicious_patterns d1 = suspicious_patterns d2"
  shows "decision_maker re d1 = decision_maker re d2
       \<and> make_response re d1 = make_response re d2
       \<and> (\<forall>f1 f2 r1 r2 g1 g2.
            process_questionnaire re d1 f1 = Inr (r1, g1) \<longrightarrow>
            process_questionnaire re d2 f2 = Inr (r2, g2) \<longrightarrow>
              r1 = r2 \<and> (\<exists>rs1 rs2 doc. g1 = LogEntries (rs1 @ [doc])
                                     \<and> g2 = LogEntries (rs2 @ [doc])))
       \<and> (\<forall>f1 r1 g1.
            process_questionnaire re d1 f1 = Inr (r1, g1) \<longrightarrow>
              (\<exists>g2. process_questionnaire re d2 g1 = Inr (r1, g2)))"
proof -
  have br: "basic_review d1 = basic_review d2"
    by (simp only: basic_review_def assms)
  have am: "amount_rejected d1 = amount_rejected d2"
    by (simp only: amount_rejected_def assms)
  have ac: "ambiguity_checker re d1 = ambiguity_checker re d2"
    by (simp only: ambiguity_checker_def assms)
  have dm: "decision_maker re d1 = decision_maker re d2"
    by (simp only: decision_maker_def br am ac assms(1))
  have mr: "make_response re d1 = make_response re d2"
    by (simp only: make_response_def br dm ac assms(1))
  have two: "r1 = r2 \<and> (\<exists>rs1 rs2 doc. g1 = LogEntries (rs1 @ [doc])
                                     \<and> g2 = LogEntries (rs2 @ [doc]))"
    if "process_questionnaire re d1 f1 = Inr (r1, g1)"
      and "process_questionnaire re d2 f2 = Inr (r2, g2)" for f1 f2 r1 r2 g1 g2
    using that mr by (auto simp: process_questionnaire_Inr)
  have again: "\<exists>g2. process_questionnaire re d2 g1 = Inr (r1, g2)"
    if "process_questionnaire re d1 f1 = Inr (r1, g1)" for f1 r1 g1
    using that mr by (auto simp: process_questionnaire_Inr load_responses_def)
  from dm mr two again show ?thesis by blast
qed

theorem decision_is_deterministic_witness:
  "questionnaire pending_deps = questionnaire relocated_deps
   \<and> min_investment_amount pending_deps = min_investment_amount relocated_deps
   \<and> required_fields pending_deps = required_fields relocated_deps
   \<and> suspicious_keywords pending_deps = suspicious_keywords relocated_deps
   \<and> suspicious_patterns pending_deps = suspicious_patterns relocated_deps
   \<and> response_path pending_deps \<noteq> response_path relocated_deps
   \<and> make_response literal_engine pending_deps = make_response literal_engine relocated_deps
   \<and> decision_maker literal_engine relocated_deps = Inr ''Escalate''"
proof -
  have h1: "questionnaire pending_deps = questionnaire relocated_deps"
    and h2: "min_investment_amount pending_deps = min_investment_amount relocated_deps"
    and h3: "required_fields pending_deps = required_fields relocated_deps"
    and h4: "suspicious_keywords pending_deps = suspicious_keywords relocated_deps"
    and h5: "suspicious_patterns pending_deps = suspicious_patterns relocated_deps"
    by (simp_all add: relocated_deps_def)
  have p: "response_path pending_deps \<noteq> response_path relocated_deps"
    by (simp add: relocated_deps_def pending_deps_def Deps_def)
  have e: "decision_maker literal_engine pending_deps = Inr ''Escalate''"
    by code_simp
  from decision_is_deterministic [OF h1 h2 h3 h4 h5, of literal_engine] h1 h2 h3 h4 h5 p e
  show ?thesis by simp
qed

section \<open>Registry Store: loading\<close>




section \<open>Registry Store: uniqueness\<close>

lemma update_entry_in:
  "(c', e') \<in> set (AList.update c v ks) \<Longrightarrow> (c', e') \<in> set ks \<or> (c', e') = (c, v)"
  by (induction ks) (auto split: if_splits)

lemma examples_distinct_update:
  "list_all (\<lambda>(c, e). distinct (examples e)) ks \<Longrightarrow> distinct (examples v) \<Longrightarrow>
   list_all (\<lambda>(c, e). distinct (examples e)) (AList.update c v ks)"
  unfolding list_all_iff using update_entry_in by fastforce

lemma examples_distinct_lookup:
  "list_all (\<lambda>(c, e). distinct (examples e)) ks \<Longrightarrow> map_of ks c = Some e \<Longrightarrow>
   distinct (examples e)"
  unfolding list_all_iff by (auto dest: map_of_SomeD)

lemma add_keyword_unique:
  assumes "registry_unique km"
  shows "registry_unique (fst (add_keyword c k desc km st))"
proof -
  let ?ks = "if map_of (km_keywords km) c = None
             then AList.update c (new_category c desc) (km_keywords km) else km_keywords km"
  have ks: "list_all (\<lambda>(c, e). distinct (examples e)) ?ks"
    using assms by (auto simp: registry_unique_def new_category_def examples_distinct_update)
  show ?thesis
  proof (cases "map_of ?ks c")
    case None
    then show ?thesis
      using assms ks by (simp add: add_keyword_def Let_def registry_unique_def)
  next
    case (Some e)
    then have "distinct (examples e)"
      using ks by (rule examples_distinct_lookup [rotated])
    then have "k \<notin> set (examples e) \<Longrightarrow>
        list_all (\<lambda>(c, e). distinct (examples e))
          (AList.update c (e\<lparr>examples := examples e @ [k]\<rparr>) ?ks)"
      using ks by (intro examples_distinct_update) auto
    then show ?thesis
      using assms ks Some
      by (auto simp: add_keyword_def Let_def registry_unique_def save_keywords_def)
  qed
qed

lemma remove_keyword_unique:
  assumes "registry_unique km"
  shows "registry_unique (fst (remove_keyword c k km st))"
proof (cases "map_of (km_keywords km) c")
  case None
  then show ?thesis using assms by (simp add: remove_keyword_def)
next
  case (Some e)
  have ks: "list_all (\<lambda>(c, e). distinct (examples e)) (km_keywords km)"
    using assms by (simp add: registry_unique_def)
  then have "distinct (examples e)"
    using Some by (rule examples_distinct_lookup)
  then have "list_all (\<lambda>(c, e). distinct (examples e))
          (AList.update c (e\<lparr>examples := remove1 k (examples e)\<rparr>) (km_keywords km))"
    using ks by (intro examples_distinct_update) auto
  then show ?thesis
    using assms Some by (auto simp: remove_keyword_def registry_unique_def save_keywords_def)
qed

lemma add_pattern_unique:
  "registry_unique km \<Longrightarrow> registry_unique (fst (add_pattern p desc km st))"
  by (auto simp: add_pattern_def registry_unique_def save_keywords_def list_ex_iff)

lemma remove_pattern_unique:
  "registry_unique km \<Longrightarrow> registry_unique (fst (remove_pattern p km st))"
  by (auto simp: remove_pattern_def registry_unique_def save_keywords_def distinct_map_filter)

lemma update_fold_unique:
  "registry_unique (fst s) \<Longrightarrow>
   registry_unique
     (fst (fold (\<lambda>word (km1, st1).
                   if length word > 3 then add_keyword ''feedback'' word desc km1 st1
                   else (km1, st1)) ws s))"
proof (induction ws arbitrary: s)
  case Nil
  then show ?case by simp
next
  case (Cons w ws)
  obtain km st where s: "s = (km, st)" by (cases s)
  show ?case
    using Cons.prems add_keyword_unique [of km "''feedback''" w desc st]
    by (auto simp: s intro!: Cons.IH)
qed

lemma update_from_feedback_unique:
  "registry_unique km \<Longrightarrow> registry_unique (fst (update_from_feedback text km st))"
  unfolding update_from_feedback_def using update_fold_unique [of "(km, st)"] by simp

lemma apply_op_unique:
  "registry_unique (fst s) \<Longrightarrow> registry_unique (fst (apply_op op s))"
  by (cases op; cases s)
    (simp_all add: add_keyword_unique remove_keyword_unique add_pattern_unique
      remove_pattern_unique update_from_feedback_unique)

lemma registry_unique_preserved:
  "registry_unique (fst s) \<Longrightarrow> registry_unique (fst (fold apply_op ops s))"
  by (induction ops arbitrary: s) (simp_all add: apply_op_unique)

section \<open>Feedback Loop: uniqueness\<close>

lemma feedback_add_keyword_distinct:
  "distinct (current_keywords fd) \<Longrightarrow> feedback_add_keyword k fd file = Inr (fd1, file1) \<Longrightarrow>
   distinct (current_keywords fd1) \<and> current_patterns fd1 = current_patterns fd"
  by (auto simp: feedback_add_keyword_def Let_def split: if_splits sum.splits)

lemma feedback_add_pattern_entries_distinct:
  "distinct (current_patterns fd) \<Longrightarrow> feedback_add_pattern p desc fd file = Inr (fd1, file1) \<Longrightarrow>
   distinct (current_patterns fd1) \<and> current_keywords fd1 = current_keywords fd"
  by (auto simp: feedback_add_pattern_def Let_def split: if_splits sum.splits)

text \<open>
  C7, at the input where the code departs from it. The Registry Store keeps the invariant
  under every sequence of its operations (\<open>registry_unique_preserved\<close>), since its
  \<open>add_pattern\<close> compares expression texts. The \<open>add_pattern\<close> of the Feedback Loop
  compares whole entries, expression and description: from a state and a file that hold
  the pattern "pending" once, adding "pending" with another description leaves two
  entries with the same expression, in memory and in the file.
\<close>

theorem feedback_add_pattern_duplicates:
  "feedback_unique feedback_state
   \<and> feedback_add_pattern ''pending'' ''Awaiting review'' feedback_state feedback_stored =
       Inr (\<lparr>current_keywords = [''offshore''],
             current_patterns =
               [\<lparr>pattern = ''pending'', pattern_description = ''Pending status''\<rparr>,
                \<lparr>pattern = ''pending'', pattern_description = ''Awaiting review''\<rparr>]\<rparr>,
            FbParsed
              \<lparr>fb_keywords = [''offshore''],
               fb_patterns =
                 [\<lparr>pattern = ''pending'', pattern_description = ''Pending status''\<rparr>,
                  \<lparr>pattern = ''pending'', pattern_description = ''Awaiting review''\<rparr>]\<rparr>)
   \<and> \<not> feedback_unique
         \<lparr>current_keywords = [''offshore''],
          current_patterns =
            [\<lparr>pattern = ''pending'', pattern_description = ''Pending status''\<rparr>,
             \<lparr>pattern = ''pending'', pattern_description = ''Awaiting review''\<rparr>]\<rparr>
   \<and> add_pattern ''pending'' ''Awaiting review'' crypto_manager empty_storage =
       (crypto_manager, empty_storage)"
proof -
  have a: "feedback_unique feedback_state"
    by (simp add: feedback_unique_def feedback_state_def)
  have b: "feedback_add_pattern ''pending'' ''Awaiting review'' feedback_state feedback_stored =
       Inr (\<lparr>current_keywords = [''offshore''],
             current_patterns =
               [\<lparr>pattern = ''pending'', pattern_description = ''Pending status''\<rparr>,
                \<lparr>pattern = ''pending'', pattern_description = ''Awaiting review''\<rparr>]\<rparr>,
            FbParsed
              \<lparr>fb_keywords = [''offshore''],
               fb_patterns =
                 [\<lparr>pattern = ''pending'', pattern_description = ''Pending status''\<rparr>,
                  \<lparr>pattern = ''pending'', pattern_description = ''Awaiting review''\<rparr>]\<rparr>)"
    by (simp add: feedback_add_pattern_def feedback_state_def feedback_stored_def
        pending_entry_def rewrite_file_def Let_def)
  have c: "\<not> feedback_unique
         \<lparr>current_keywords = [''offshore''],
          current_patterns =
            [\<lparr>pattern = ''pending'', pattern_description = ''Pending status''\<rparr>,
             \<lparr>pattern = ''pending'', pattern_description = ''Awaiting review''\<rparr>]\<rparr>"
    by (simp add: feedback_unique_def)
  have d: "add_pattern ''pending'' ''Awaiting review'' crypto_manager empty_storage =
       (crypto_manager, empty_storage)"
    by (simp add: add_pattern_def crypto_manager_def pending_entry_def)
  from a b c d show ?thesis by blast
qed

section \<open>Registry Store: adding twice, adding and removing\<close>

lemma update_new_key:
  "map_of ks c = None \<Longrightarrow> AList.update c v ks = ks @ [(c, v)]"
  by (induction ks) (auto split: if_splits)

lemma all_keywords_update:
  "map_of ks c = Some e \<Longrightarrow> set (examples v) = set (examples e) \<Longrightarrow>
   set (concat (map (\<lambda>(c, e). examples e) (AList.update c v ks)))
     = set (concat (map (\<lambda>(c, e). examples e) ks))"
  by (induction ks) (auto split: if_splits)

lemma add_keyword_present:
  "map_of (km_keywords km) c = Some e \<Longrightarrow> k \<in> set (examples e) \<Longrightarrow>
   add_keyword c k desc km st = (km, st)"
  by (simp add: add_keyword_def)

lemma add_pattern_present:
  "p \<in> set (get_all_patterns km) \<Longrightarrow> add_pattern p desc km st = (km, st)"
  by (auto simp: add_pattern_def get_all_patterns_def list_ex_iff)

lemma add_then_remove_existing:
  assumes "map_of (km_keywords km) c = Some e" and "k \<notin> set (examples e)"
  shows "add_then_remove c k desc km st =
           (km, \<lparr>content = Parsed \<lparr>doc_keywords = Some (km_keywords km),
                                   doc_patterns = Some (km_patterns km)\<rparr>,
                 writes = writes st + 2\<rparr>)"
proof -
  let ?e1 = "e\<lparr>examples := examples e @ [k]\<rparr>"
  let ?ks1 = "AList.update c ?e1 (km_keywords km)"
  have a: "add_keyword c k desc km st =
             save_keywords (km\<lparr>km_keywords := ?ks1\<rparr>) st"
    using assms by (simp add: add_keyword_def)
  have l: "map_of ?ks1 c = Some ?e1"
    by (simp add: update_conv')
  have r: "remove1 k (examples e @ [k]) = examples e"
    using assms(2) by (simp add: remove1_append)
  have u: "AList.update c e (km_keywords km) = km_keywords km"
    using assms(1) by (rule update_triv)
  show ?thesis
    by (simp add: add_then_remove_def a save_keywords_def remove_keyword_def l r u)
qed

lemma add_then_remove_new:
  assumes "map_of (km_keywords km) c = None"
  shows "add_then_remove c k desc km st =
           (km\<lparr>km_keywords := km_keywords km @ [(c, new_category c desc)]\<rparr>,
            \<lparr>content = Parsed \<lparr>doc_keywords = Some (km_keywords km @ [(c, new_category c desc)]),
                              doc_patterns = Some (km_patterns km)\<rparr>,
             writes = writes st + 2\<rparr>)"
proof -
  let ?n = "new_category c desc"
  let ?e1 = "?n\<lparr>examples := [k]\<rparr>"
  let ?ks0 = "AList.update c ?n (km_keywords km)"
  let ?ks1 = "AList.update c ?e1 (km_keywords km)"
  have n: "examples ?n = []"
    by (simp add: new_category_def)
  have l0: "map_of ?ks0 c = Some ?n"
    by (simp add: update_conv')
  have a: "add_keyword c k desc km st = save_keywords (km\<lparr>km_keywords := ?ks1\<rparr>) st"
    using assms by (simp add: add_keyword_def l0 n)
  have l: "map_of ?ks1 c = Some ?e1"
    by (simp add: update_conv')
  have e: "?n\<lparr>examples := []\<rparr> = ?n"
    by (simp add: new_category_def)
  have u: "AList.update c ?n (km_keywords km) = km_keywords km @ [(c, ?n)]"
    using assms by (rule update_new_key)
  show ?thesis
    by (simp add: add_then_remove_def a save_keywords_def remove_keyword_def l e u)
qed

text \<open>
  C9, as the code has it. Adding a keyword that its category already holds, or a pattern
  whose expression the registry already holds, changes neither the registry nor the file
  and writes nothing. Adding a term that its category does not hold yet and then
  removing it from that category restores the flat keyword set, with two writes, the file
  holding the final registry; when the category existed before, the whole registry is
  as before.
\<close>

theorem add_idempotent_and_undone:
  "(map_of (km_keywords km) c = Some e \<and> k \<in> set (examples e) \<longrightarrow>
      add_keyword c k desc km st = (km, st))
   \<and> (p \<in> set (get_all_patterns km) \<longrightarrow> add_pattern p pdesc km st = (km, st))
   \<and> ((\<forall>e. map_of (km_keywords km) c = Some e \<longrightarrow> k \<notin> set (examples e)) \<longrightarrow>
        get_all_keywords (fst (add_then_remove c k desc km st)) = get_all_keywords km
        \<and> saved (fst (add_then_remove c k desc km st)) (snd (add_then_remove c k desc km st))
        \<and> writes (snd (add_then_remove c k desc km st)) = writes st + 2
        \<and> (map_of (km_keywords km) c \<noteq> None \<longrightarrow> fst (add_then_remove c k desc km st) = km))"
proof -
  have third: "get_all_keywords (fst (add_then_remove c k desc km st)) = get_all_keywords km
        \<and> saved (fst (add_then_remove c k desc km st)) (snd (add_then_remove c k desc km st))
        \<and> writes (snd (add_then_remove c k desc km st)) = writes st + 2
        \<and> (map_of (km_keywords km) c \<noteq> None \<longrightarrow> fst (add_then_remove c k desc km st) = km)"
    if h: "\<forall>e. map_of (km_keywords km) c = Some e \<longrightarrow> k \<notin> set (examples e)"
  proof (cases "map_of (km_keywords km) c")
    case None
    show ?thesis
      by (simp add: add_then_remove_new [OF None] get_all_keywords_def saved_def
          new_category_def None)
  next
    case (Some e0)
    with h have "k \<notin> set (examples e0)" by simp
    from add_then_remove_existing [OF Some this] show ?thesis
      by (simp add: saved_def Some)
  qed
  from add_keyword_present add_pattern_present third show ?thesis by blast
qed

theorem add_idempotent_and_undone_witness:
  "map_of (km_keywords crypto_manager) ''crypto''
     = Some \<lparr>category = ''high_risk'', description = ''Digital assets'', examples = [''bitcoin'']\<rparr>
   \<and> add_keyword ''crypto'' ''bitcoin'' None crypto_manager empty_storage
       = (crypto_manager, empty_storage)
   \<and> ''pending'' \<in> set (get_all_patterns crypto_manager)
   \<and> add_pattern ''pending'' ''Again'' crypto_manager empty_storage
       = (crypto_manager, empty_storage)
   \<and> get_all_keywords (fst (add_then_remove ''crypto'' ''ether'' None crypto_manager empty_storage))
       = get_all_keywords crypto_manager
   \<and> fst (add_then_remove ''crypto'' ''ether'' None crypto_manager empty_storage) = crypto_manager
   \<and> writes (snd (add_then_remove ''crypto'' ''ether'' None crypto_manager empty_storage)) = 2"
proof -
  let ?e = "\<lparr>category = ''high_risk'', description = ''Digital assets'', examples = [''bitcoin'']\<rparr>"
  have m: "map_of (km_keywords crypto_manager) ''crypto'' = Some ?e"
    by (simp add: crypto_manager_def)
  have b: "''bitcoin'' \<in> set (examples ?e)"
    by simp
  have p: "''pending'' \<in> set (get_all_patterns crypto_manager)"
    by (simp add: get_all_patterns_def crypto_manager_def pending_entry_def)
  have n: "\<forall>e. map_of (km_keywords crypto_manager) ''crypto'' = Some e
             \<longrightarrow> ''ether'' \<notin> set (examples e)"
    by (simp add: crypto_manager_def)
  have w: "writes empty_storage = 0"
    by (simp add: empty_storage_def)
  note t = add_idempotent_and_undone [of crypto_manager "''crypto''" ?e _ _ _ "''pending''"]
  from t [of "''bitcoin''" None empty_storage "''Again''"] m b p
  have 1: "add_keyword ''crypto'' ''bitcoin'' None crypto_manager empty_storage
       = (crypto_manager, empty_storage)"
    and 2: "add_pattern ''pending'' ''Again'' crypto_manager empty_storage
       = (crypto_manager, empty_storage)"
    by blast+
  from t [of "''ether''" None empty_storage "''Again''"] n m w
  have 3: "get_all_keywords (fst (add_then_remove ''crypto'' ''ether'' None crypto_manager empty_storage))
       = get_all_keywords crypto_manager"
    and 4: "fst (add_then_remove ''crypto'' ''ether'' None crypto_manager empty_storage) = crypto_manager"
    and 5: "writes (snd (add_then_remove ''crypto'' ''ether'' None crypto_manager empty_storage)) = 2"
    by simp_all
  from m 1 p 2 3 4 5 show ?thesis by blast
qed

text \<open>
  C9 as stated fails for a term that the category already holds: adding it changes
  nothing, removing it takes it out, and the flat keyword set has lost it.
\<close>

theorem add_then_remove_counterexample:
  "get_all_keywords crypto_manager = {''bitcoin''}
   \<and> get_all_keywords
        (fst (add_then_remove ''crypto'' ''bitcoin'' None crypto_manager empty_storage)) = {}"
proof -
  have a: "get_all_keywords crypto_manager = {''bitcoin''}"
    by (simp add: get_all_keywords_def crypto_manager_def)
  have "add_keyword ''crypto'' ''bitcoin'' None crypto_manager empty_storage
          = (crypto_manager, empty_storage)"
    by (simp add: add_keyword_def crypto_manager_def)
  then have b: "get_all_keywords
        (fst (add_then_remove ''crypto'' ''bitcoin'' None crypto_manager empty_storage)) = {}"
    by (simp add: add_then_remove_def)
      (simp add: remove_keyword_def crypto_manager_def save_keywords_def get_all_keywords_def)
  from a b show ?thesis by blast
qed

end
